theory Spec2Isabelle
  imports Complex_Main
begin

section \<open>RazorMonitor: offline DQM for razor triggers\<close>

text \<open>
  A shallow embedding of \<^verbatim>\<open>DQMOffline/Trigger/plugins/RazorMonitor.cc\<close>.

  Conventions of the embedding.
  \<^item> The components of the input vectors are finite numbers, of type \<^typ>\<open>real\<close>, and so is
    everything computed from them with sums, products and square roots of sums of squares.
    Where the source divides or takes another square root, the result is a \<open>double\<close>: a
    finite number, an infinity or NaN, with the results of IEEE 754 at a zero divisor, a
    negative radicand and non-finite operands. Finite results are exact: rounding to double
    precision is not represented, and neither is the sign of a zero. The narrowing to
    \<^verbatim>\<open>float\<close> rounds.
  \<^item> Calls into the host framework that have an effect (a histogram fill, a logged error, a
    booking) are recorded, in order, in a list that the operation returns.
  \<^item> An access that does not return normally in C++ (dereferencing an invalid handle,
    \<^verbatim>\<open>front()\<close> of an empty collection, \<^verbatim>\<open>at(i)\<close> out of range, a call through a null
    pointer) is a value \<open>Inl failure\<close>.
\<close>

subsection \<open>Four-vectors and three-vectors\<close>

text \<open>\<^verbatim>\<open>math::XYZTLorentzVector\<close>: Cartesian components of a four-momentum.\<close>

record XYZTLorentzVector =
  Px :: real
  Py :: real
  Pz :: real
  E :: real

text \<open>\<^verbatim>\<open>math::XYZVector\<close> and \<^verbatim>\<open>TVector3\<close>: a Cartesian three-vector.\<close>

record XYZVector =
  fX :: real
  fY :: real
  fZ :: real

definition Pt :: "XYZTLorentzVector \<Rightarrow> real" where
  "Pt v = sqrt (Px v * Px v + Py v * Py v)"

definition P :: "XYZTLorentzVector \<Rightarrow> real" where
  "P v = sqrt (Px v * Px v + Py v * Py v + Pz v * Pz v)"

definition Vect :: "XYZTLorentzVector \<Rightarrow> XYZVector" where
  "Vect v = \<lparr>fX = Px v, fY = Py v, fZ = Pz v\<rparr>"

text \<open>The two-argument arc tangent of the C library, with values in \<open>(-\<pi>, \<pi>]\<close>.\<close>

definition atan2 :: "real \<Rightarrow> real \<Rightarrow> real" where
  "atan2 y x =
     (if 0 < x then arctan (y / x)
      else if x < 0 \<and> 0 \<le> y then arctan (y / x) + pi
      else if x < 0 \<and> y < 0 then arctan (y / x) - pi
      else if 0 < y then pi / 2
      else if y < 0 then - (pi / 2)
      else 0)"

definition Phi :: "XYZTLorentzVector \<Rightarrow> real" where
  "Phi v = (if Px v = 0 \<and> Py v = 0 then 0 else atan2 (Py v) (Px v))"

definition SetXYZ :: "real \<Rightarrow> real \<Rightarrow> real \<Rightarrow> XYZVector" where
  "SetXYZ x y z = \<lparr>fX = x, fY = y, fZ = z\<rparr>"

definition vplus :: "XYZVector \<Rightarrow> XYZVector \<Rightarrow> XYZVector" where
  "vplus a b = \<lparr>fX = fX a + fX b, fY = fY a + fY b, fZ = fZ a + fZ b\<rparr>"

definition Dot :: "XYZVector \<Rightarrow> XYZVector \<Rightarrow> real" where
  "Dot a b = fX a * fX b + fY a * fY b + fZ a * fZ b"

definition Mag2 :: "XYZVector \<Rightarrow> real" where
  "Mag2 a = fX a * fX a + fY a * fY a + fZ a * fZ a"

definition R :: "XYZVector \<Rightarrow> real" where
  "R a = sqrt (Mag2 a)"

subsection \<open>Doubles\<close>

text \<open>
  The values of a C++ \<^verbatim>\<open>double\<close>. Arithmetic follows IEEE 754 on the special values: NaN
  propagates, \<open>\<infinity> - \<infinity>\<close>, \<open>0 \<times> \<infinity>\<close>, \<open>0 / 0\<close> and \<open>\<infinity> / \<infinity>\<close> are NaN, a non-zero number
  divided by zero is an infinity (the zero divisor counts as positive), and every comparison
  with NaN is false.
\<close>

datatype double = Finite real | PosInf | NegInf | NaN

definition signed_inf :: "bool \<Rightarrow> double" where
  "signed_inf negative = (if negative then NegInf else PosInf)"

instantiation double :: "{zero, one, plus, minus, uminus, times, inverse, ord}"
begin

definition zero_double :: double where
  "zero_double = Finite 0"

definition one_double :: double where
  "one_double = Finite 1"

fun uminus_double :: "double \<Rightarrow> double" where
  "uminus_double (Finite a) = Finite (- a)"
| "uminus_double PosInf = NegInf"
| "uminus_double NegInf = PosInf"
| "uminus_double NaN = NaN"

fun plus_double :: "double \<Rightarrow> double \<Rightarrow> double" where
  "plus_double NaN y = NaN"
| "plus_double x NaN = NaN"
| "plus_double PosInf NegInf = NaN"
| "plus_double NegInf PosInf = NaN"
| "plus_double PosInf y = PosInf"
| "plus_double x PosInf = PosInf"
| "plus_double NegInf y = NegInf"
| "plus_double x NegInf = NegInf"
| "plus_double (Finite a) (Finite b) = Finite (a + b)"

definition minus_double :: "double \<Rightarrow> double \<Rightarrow> double" where
  "minus_double x y = x + (- y)"

fun times_double :: "double \<Rightarrow> double \<Rightarrow> double" where
  "times_double NaN y = NaN"
| "times_double x NaN = NaN"
| "times_double (Finite a) (Finite b) = Finite (a * b)"
| "times_double (Finite a) PosInf = (if a = 0 then NaN else signed_inf (a < 0))"
| "times_double (Finite a) NegInf = (if a = 0 then NaN else signed_inf (0 < a))"
| "times_double PosInf (Finite b) = (if b = 0 then NaN else signed_inf (b < 0))"
| "times_double NegInf (Finite b) = (if b = 0 then NaN else signed_inf (0 < b))"
| "times_double PosInf PosInf = PosInf"
| "times_double PosInf NegInf = NegInf"
| "times_double NegInf PosInf = NegInf"
| "times_double NegInf NegInf = PosInf"

fun divide_double :: "double \<Rightarrow> double \<Rightarrow> double" where
  "divide_double NaN y = NaN"
| "divide_double x NaN = NaN"
| "divide_double (Finite a) (Finite b) =
     (if b = 0 then (if a = 0 then NaN else signed_inf (a < 0)) else Finite (a / b))"
| "divide_double (Finite a) PosInf = Finite 0"
| "divide_double (Finite a) NegInf = Finite 0"
| "divide_double PosInf (Finite b) = signed_inf (b < 0)"
| "divide_double NegInf (Finite b) = signed_inf (0 \<le> b)"
| "divide_double PosInf y = NaN"
| "divide_double NegInf y = NaN"

fun inverse_double :: "double \<Rightarrow> double" where
  "inverse_double (Finite a) = (if a = 0 then PosInf else Finite (inverse a))"
| "inverse_double PosInf = Finite 0"
| "inverse_double NegInf = Finite 0"
| "inverse_double NaN = NaN"

fun less_double :: "double \<Rightarrow> double \<Rightarrow> bool" where
  "less_double (Finite a) (Finite b) = (a < b)"
| "less_double (Finite a) PosInf = True"
| "less_double NegInf (Finite b) = True"
| "less_double NegInf PosInf = True"
| "less_double x y = False"

fun less_eq_double :: "double \<Rightarrow> double \<Rightarrow> bool" where
  "less_eq_double (Finite a) (Finite b) = (a \<le> b)"
| "less_eq_double (Finite a) PosInf = True"
| "less_eq_double NegInf (Finite b) = True"
| "less_eq_double NegInf PosInf = True"
| "less_eq_double PosInf PosInf = True"
| "less_eq_double NegInf NegInf = True"
| "less_eq_double x y = False"

instance ..

end

text \<open>\<^verbatim>\<open>sqrt\<close> on doubles: NaN below zero.\<close>

fun dsqrt :: "double \<Rightarrow> double" where
  "dsqrt (Finite a) = (if a < 0 then NaN else Finite (sqrt a))"
| "dsqrt PosInf = PosInf"
| "dsqrt NegInf = NaN"
| "dsqrt NaN = NaN"

text \<open>Rounding to the nearest integer, a tie to the even one.\<close>

definition round_half_even :: "real \<Rightarrow> int" where
  "round_half_even r =
     (let f = \<lfloor>r\<rfloor> in
      if r - of_int f < 1 / 2 then f
      else if 1 / 2 < r - of_int f then f + 1
      else if even f then f else f + 1)"

text \<open>
  The conversion \<^verbatim>\<open>float(x)\<close> of a double, read back as a double: the nearest number
  with a significand of 24 bits and an exponent of at least \<open>-126\<close>, a tie to the even one,
  and an infinity from \<open>2\<^sup>1\<^sup>2\<^sup>8\<close> on.
\<close>

fun narrow :: "double \<Rightarrow> double" where
  "narrow (Finite x) =
     (if x = 0 then Finite 0
      else
        let e = max \<lfloor>log 2 \<bar>x\<bar>\<rfloor> (- 126);
            ulp = 2 powi (e - 23);
            y = of_int (round_half_even (x / ulp)) * ulp
        in if 2 ^ 128 \<le> \<bar>y\<bar> then signed_inf (x < 0) else Finite y)"
| "narrow PosInf = PosInf"
| "narrow NegInf = NegInf"
| "narrow NaN = NaN"

subsection \<open>Event data\<close>

text \<open>
  \<^verbatim>\<open>reco::PFMET\<close>: only its momentum is read by this plugin; everything else the
  configured selection may look at is behind the predicate \<open>metSelection\<close>.
\<close>

record PFMET =
  momentum :: XYZVector

datatype failure = ProductNotFound | EmptyCollection | OutOfRange | NullPointer

text \<open>
  An \<^verbatim>\<open>edm::Handle\<close> is \<open>None\<close> when it is not valid and \<open>Some\<close> of the collection
  otherwise. \<^verbatim>\<open>handle->front()\<close> and \<^verbatim>\<open>handle->size()\<close> dereference it.
\<close>

definition front :: "'a list option \<Rightarrow> failure + 'a" where
  "front h = (case h of None \<Rightarrow> Inl ProductNotFound
              | Some [] \<Rightarrow> Inl EmptyCollection
              | Some (x # _) \<Rightarrow> Inr x)"

definition deref :: "'a list option \<Rightarrow> failure + 'a list" where
  "deref h = (case h of None \<Rightarrow> Inl ProductNotFound | Some xs \<Rightarrow> Inr xs)"

definition at_index :: "'a list \<Rightarrow> nat \<Rightarrow> failure + 'a" where
  "at_index xs i = (if i < length xs then Inr (xs ! i) else Inl OutOfRange)"

text \<open>
  The event as this plugin reads it: the three collections it gets by token. The type
  \<open>'jet\<close> stands for \<^verbatim>\<open>reco::PFJet\<close>, which only the jet selection inspects.
\<close>

record 'jet Event =
  metHandle :: "PFMET list option"
  jetHandle :: "'jet list option"
  hemispheres :: "XYZTLorentzVector list option"

text \<open>
  \<^verbatim>\<open>GenericTriggerEventFlag\<close>: whether the evaluator is switched on, and its decisions.
  \<open>accept ev n\<close> is what the call \<^verbatim>\<open>accept(iEvent, iSetup)\<close> returns when it is the call
  number \<open>n\<close> (from 0) made on this evaluator while the event \<open>ev\<close> is analysed: the evaluator
  is host code, and nothing in this unit makes two calls on it agree.
\<close>

record 'ev GenericTriggerEventFlag =
  flag_on :: bool
  accept :: "'ev \<Rightarrow> nat \<Rightarrow> bool"

text \<open>The configured members of \<^verbatim>\<open>RazorMonitor\<close>.\<close>

record 'jet RazorMonitor =
  folderName :: string
  rsq_binning :: "real list"
  mr_binning :: "real list"
  dphiR_binning :: "real list"
  num_genTriggerEventFlag :: "'jet Event GenericTriggerEventFlag"
  den_genTriggerEventFlag :: "'jet Event GenericTriggerEventFlag"
  metSelection :: "PFMET \<Rightarrow> bool"
  jetSelection :: "'jet \<Rightarrow> bool"
  njets :: nat
  rsqCut :: double
  mrCut :: double

subsection \<open>Razor variables\<close>

definition CalcMR :: "XYZTLorentzVector \<Rightarrow> XYZTLorentzVector \<Rightarrow> double" where
  "CalcMR ja jb =
     (if Pt ja \<le> 1 / 10 then - 1
      else
        let A = P ja;
            B = P jb;
            az = Pz ja;
            bz = Pz jb;
            jaT = SetXYZ (Px ja) (Py ja) 0;
            jbT = SetXYZ (Px jb) (Py jb) 0;
            ATBT = Mag2 (vplus jaT jbT);
            MR = dsqrt (Finite ((A + B) * (A + B) - (az + bz) * (az + bz))
                   - Finite ((Dot jbT jbT - Dot jaT jaT) * (Dot jbT jbT - Dot jaT jaT))
                       / Finite (Mag2 (vplus jaT jbT)));
            mybeta = Finite (Dot jbT jbT - Dot jaT jaT)
                       / dsqrt (Finite (ATBT * ((A + B) * (A + B) - (az + bz) * (az + bz))));
            mygamma = 1 / dsqrt (1 - mybeta * mybeta)
        in MR * mygamma)"

text \<open>
  Lines 303 to 312. Line 311 is a division of two \<^verbatim>\<open>float\<close>: both operands are
  narrowed, and so is the quotient.
\<close>

definition CalcR ::
  "double \<Rightarrow> XYZTLorentzVector \<Rightarrow> XYZTLorentzVector \<Rightarrow> PFMET list option \<Rightarrow> failure + double"
  where
  "CalcR MR ja jb inputMet =
     (case front inputMet of
        Inl e \<Rightarrow> Inl e
      | Inr m \<Rightarrow>
          let met = momentum m;
              MTR = dsqrt (Finite (1 / 2 * (R met * (Pt ja + Pt jb)
                                            - Dot met (vplus (Vect ja) (Vect jb)))))
          in Inr (narrow (narrow MTR / narrow MR)))"

text \<open>
  Modelled from the spec: \<^verbatim>\<open>deltaPhi\<close> (DataFormats/Math/interface/deltaPhi.h) is not
  part of the source unit. The specification calls it the wrapped angular difference of two
  azimuthal angles: the difference, moved by a multiple of \<open>2\<pi>\<close> into one period around 0.
\<close>

definition deltaPhi :: "real \<Rightarrow> real \<Rightarrow> real" where
  "deltaPhi phi1 phi2 =
     (let d = phi1 - phi2 in d - 2 * pi * of_int \<lceil>(d - pi) / (2 * pi)\<rceil>)"

text \<open>
  The pair of hemispheres in the order in which \<open>analyze\<close> passes them to \<open>CalcMR\<close> and
  \<open>CalcR\<close> (the two branches of lines 181 to 188).
\<close>

definition ordered_hemispheres ::
  "XYZTLorentzVector \<Rightarrow> XYZTLorentzVector \<Rightarrow> XYZTLorentzVector \<times> XYZTLorentzVector" where
  "ordered_hemispheres h0 h1 = (if Pt h1 > Pt h0 then (h1, h0) else (h0, h1))"

text \<open>
  Lines 180 to 191 of \<open>analyze\<close>: the triple \<open>(MR, Rsq, dPhiR)\<close>. The condition of line 181
  reads element 1 before element 0; \<^verbatim>\<open>abs\<close> on line 191 is the absolute value of a
  \<^verbatim>\<open>double\<close>.
\<close>

definition razor_variables ::
  "PFMET list option \<Rightarrow> XYZTLorentzVector list \<Rightarrow> failure + (double \<times> double \<times> real)" where
  "razor_variables metH hs =
     (case at_index hs 1 of
        Inl e \<Rightarrow> Inl e
      | Inr h1 \<Rightarrow>
     (case at_index hs 0 of
        Inl e \<Rightarrow> Inl e
      | Inr h0 \<Rightarrow>
     (case ordered_hemispheres h0 h1 of
        (ja, jb) \<Rightarrow>
     (let MR = CalcMR ja jb in
      case CalcR MR ja jb metH of
        Inl e \<Rightarrow> Inl e
      | Inr Rv \<Rightarrow>
          let Rsq = Rv * Rv;
              dPhiR = \<bar>deltaPhi (Phi h0) (Phi h1)\<bar>
          in Inr (MR, Rsq, dPhiR)))))"

subsection \<open>The event callback\<close>

datatype histogram = MR_ME | Rsq_ME | dPhiR_ME | MRVsRsq_ME

datatype part = Numerator | Denominator

text \<open>The two messages that \<open>analyze\<close> sends to \<^verbatim>\<open>edm::LogError("DQM_HLT_Razor")\<close>.\<close>

datatype message =
  TooManyJets
  | InvalidHemisphereCollection nat

datatype effect =
  LogError message
  | Fill part histogram "double list"

text \<open>
  The selection gates, in the words of the specification, and how the callback ended: at the
  early return of a gate, or after the last fill.
\<close>

datatype gate =
  DenTrigger | MetCut | JetCountCut | HemisphereValidity | RazorCut | DenTriggerAgain | NumTrigger

datatype exit = Rejected gate | Completed

text \<open>Lines 199 to 210: the denominator fills.\<close>

definition fill_denominator ::
  "'jet RazorMonitor \<Rightarrow> double \<Rightarrow> double \<Rightarrow> real \<Rightarrow> effect list" where
  "fill_denominator cfg MR Rsq dPhiR =
     (if Rsq \<ge> rsqCut cfg then [Fill Denominator MR_ME [MR]] else [])
     @ (if MR \<ge> mrCut cfg then [Fill Denominator Rsq_ME [Rsq]] else [])
     @ [Fill Denominator dPhiR_ME [Finite dPhiR]]
     @ [Fill Denominator MRVsRsq_ME [MR, Rsq]]"

text \<open>Lines 215 to 226: the numerator fills.\<close>

definition fill_numerator ::
  "'jet RazorMonitor \<Rightarrow> double \<Rightarrow> double \<Rightarrow> real \<Rightarrow> effect list" where
  "fill_numerator cfg MR Rsq dPhiR =
     (if Rsq \<ge> rsqCut cfg then [Fill Numerator MR_ME [MR]] else [])
     @ (if MR \<ge> mrCut cfg then [Fill Numerator Rsq_ME [Rsq]] else [])
     @ [Fill Numerator dPhiR_ME [Finite dPhiR]]
     @ [Fill Numerator MRVsRsq_ME [MR, Rsq]]"

text \<open>Lines 193 to 227: everything after the razor variables are known.\<close>

definition select_and_fill ::
  "'jet RazorMonitor \<Rightarrow> 'jet Event \<Rightarrow> double \<times> double \<times> real \<Rightarrow> exit \<times> effect list" where
  "select_and_fill cfg ev v =
     (case v of (MR, Rsq, dPhiR) \<Rightarrow>
        if Rsq < rsqCut cfg \<and> MR < mrCut cfg then (Rejected RazorCut, [])
        else if flag_on (den_genTriggerEventFlag cfg) \<and> \<not> accept (den_genTriggerEventFlag cfg) ev 1
          then (Rejected DenTriggerAgain, [])
        else if flag_on (num_genTriggerEventFlag cfg) \<and> \<not> accept (num_genTriggerEventFlag cfg) ev 0
          then (Rejected NumTrigger, fill_denominator cfg MR Rsq dPhiR)
        else (Completed, fill_denominator cfg MR Rsq dPhiR @ fill_numerator cfg MR Rsq dPhiR))"

text \<open>Lines 160 to 191: the hemisphere checks and the razor computation.\<close>

definition check_hemispheres ::
  "'jet RazorMonitor \<Rightarrow> 'jet Event \<Rightarrow> failure + (exit \<times> effect list)" where
  "check_hemispheres cfg ev =
     (case hemispheres ev of
        None \<Rightarrow> Inr (Rejected HemisphereValidity, [])
      | Some hs \<Rightarrow>
          if length hs = 0
            then Inr (Rejected HemisphereValidity, [LogError TooManyJets])
          else if length hs \<noteq> 0 \<and> length hs \<noteq> 2 \<and> length hs \<noteq> 5 \<and> length hs \<noteq> 10
            then Inr (Rejected HemisphereValidity,
                      [LogError (InvalidHemisphereCollection (length hs))])
          else (case razor_variables (metHandle ev) hs of
                  Inl e \<Rightarrow> Inl e
                | Inr v \<Rightarrow> Inr (select_and_fill cfg ev v)))"

text \<open>\<^verbatim>\<open>RazorMonitor::analyze\<close>, lines 138 to 228.\<close>

definition analyze :: "'jet RazorMonitor \<Rightarrow> 'jet Event \<Rightarrow> failure + (exit \<times> effect list)" where
  "analyze cfg ev =
     (if flag_on (den_genTriggerEventFlag cfg) \<and> \<not> accept (den_genTriggerEventFlag cfg) ev 0
        then Inr (Rejected DenTrigger, [])
      else
        (case front (metHandle ev) of
           Inl e \<Rightarrow> Inl e
         | Inr pfmet \<Rightarrow>
             if \<not> metSelection cfg pfmet then Inr (Rejected MetCut, [])
             else
               (case deref (jetHandle ev) of
                  Inl e \<Rightarrow> Inl e
                | Inr jetColl \<Rightarrow>
                    if length jetColl < njets cfg then Inr (Rejected JetCountCut, [])
                    else
                      let jets = filter (jetSelection cfg) jetColl in
                      if length jets < njets cfg then Inr (Rejected JetCountCut, [])
                      else check_hemispheres cfg ev)))"

subsection \<open>Path conditions of the event callback\<close>

text \<open>
  The condition under which control reaches line 193 (the offline razor cut) with the razor
  variables \<open>v\<close>: the four earlier gates did not return and the razor computation succeeded.
\<close>

definition reaches_razor_cut ::
  "'jet RazorMonitor \<Rightarrow> 'jet Event \<Rightarrow> double \<times> double \<times> real \<Rightarrow> bool" where
  "reaches_razor_cut cfg ev v =
     (\<not> (flag_on (den_genTriggerEventFlag cfg) \<and> \<not> accept (den_genTriggerEventFlag cfg) ev 0)
      \<and> (case front (metHandle ev) of Inl e \<Rightarrow> False | Inr pfmet \<Rightarrow> metSelection cfg pfmet)
      \<and> (case deref (jetHandle ev) of
            Inl e \<Rightarrow> False
          | Inr jetColl \<Rightarrow>
              \<not> length jetColl < njets cfg
              \<and> \<not> length (filter (jetSelection cfg) jetColl) < njets cfg)
      \<and> (case hemispheres ev of
            None \<Rightarrow> False
          | Some hs \<Rightarrow>
              (length hs = 2 \<or> length hs = 5 \<or> length hs = 10)
              \<and> razor_variables (metHandle ev) hs = Inr v))"

text \<open>
  The condition under which control reaches line 160 (the hemisphere checks): the denominator
  trigger, the MET cut and the jet count did not return.
\<close>

definition reaches_hemisphere_check :: "'jet RazorMonitor \<Rightarrow> 'jet Event \<Rightarrow> bool" where
  "reaches_hemisphere_check cfg ev =
     (\<not> (flag_on (den_genTriggerEventFlag cfg) \<and> \<not> accept (den_genTriggerEventFlag cfg) ev 0)
      \<and> (case front (metHandle ev) of Inl e \<Rightarrow> False | Inr pfmet \<Rightarrow> metSelection cfg pfmet)
      \<and> (case deref (jetHandle ev) of
            Inl e \<Rightarrow> False
          | Inr jetColl \<Rightarrow>
              \<not> length jetColl < njets cfg
              \<and> \<not> length (filter (jetSelection cfg) jetColl) < njets cfg))"


definition is_fill :: "effect \<Rightarrow> bool" where
  "is_fill e = (case e of Fill p h v \<Rightarrow> True | LogError m \<Rightarrow> False)"

definition is_fill_of :: "part \<Rightarrow> effect \<Rightarrow> bool" where
  "is_fill_of p e = (case e of Fill q h v \<Rightarrow> q = p | LogError m \<Rightarrow> False)"

subsection \<open>The gate sequence as the specification words it\<close>

text \<open>
  The seven sequential exit conditions of the specification, each as the condition an event
  must meet to get past the gate. The two evaluations of the denominator trigger are the
  first and the second call on that evaluator; the razor cut is worded as the specification
  notes it (reject if both are below their cut).
\<close>

definition gate_passes :: "'jet RazorMonitor \<Rightarrow> 'jet Event \<Rightarrow> gate \<Rightarrow> bool" where
  "gate_passes cfg ev g =
     (case g of
        DenTrigger \<Rightarrow>
          flag_on (den_genTriggerEventFlag cfg) \<longrightarrow> accept (den_genTriggerEventFlag cfg) ev 0
      | MetCut \<Rightarrow>
          (case metHandle ev of Some (m # ms) \<Rightarrow> metSelection cfg m | _ \<Rightarrow> False)
      | JetCountCut \<Rightarrow>
          (case jetHandle ev of
             Some js \<Rightarrow> njets cfg \<le> length (filter (jetSelection cfg) js)
           | None \<Rightarrow> False)
      | HemisphereValidity \<Rightarrow>
          (case hemispheres ev of
             Some hs \<Rightarrow> length hs = 2 \<or> length hs = 5 \<or> length hs = 10
           | None \<Rightarrow> False)
      | RazorCut \<Rightarrow>
          (case hemispheres ev of
             Some hs \<Rightarrow>
               (case razor_variables (metHandle ev) hs of
                  Inr (MR, Rsq, dPhiR) \<Rightarrow> \<not> (Rsq < rsqCut cfg \<and> MR < mrCut cfg)
                | Inl e \<Rightarrow> False)
           | None \<Rightarrow> False)
      | DenTriggerAgain \<Rightarrow>
          flag_on (den_genTriggerEventFlag cfg) \<longrightarrow> accept (den_genTriggerEventFlag cfg) ev 1
      | NumTrigger \<Rightarrow>
          flag_on (num_genTriggerEventFlag cfg) \<longrightarrow> accept (num_genTriggerEventFlag cfg) ev 0)"

definition gate_order :: "gate list" where
  "gate_order =
     [DenTrigger, MetCut, JetCountCut, HemisphereValidity, RazorCut, DenTriggerAgain, NumTrigger]"

text \<open>Where the specified sequence ends: at the first gate that is not passed, if any.\<close>

definition first_failing_gate :: "'jet RazorMonitor \<Rightarrow> 'jet Event \<Rightarrow> exit" where
  "first_failing_gate cfg ev =
     (case find (\<lambda>g. \<not> gate_passes cfg ev g) gate_order of
        None \<Rightarrow> Completed
      | Some g \<Rightarrow> Rejected g)"

subsection \<open>Histogram booking\<close>

text \<open>
  What a booked histogram is made from: the arguments of \<^verbatim>\<open>book1D\<close>, \<^verbatim>\<open>bookProfile\<close>
  and \<^verbatim>\<open>book2D\<close>, with fixed-width bins (a count and a range) or variable-width bins
  (a count and the array of edges).
\<close>

datatype shape =
  Fixed1D int real real
  | Variable1D int "double list"
  | Profile int real real real real
  | Fixed2D int real real int real real
  | Variable2D int "double list" int "double list"

text \<open>
  The calls \<open>bookHistograms\<close> makes into the host: on the booker, on a booked monitor element
  (named by the name it was booked with) and on a trigger-flag evaluator.
\<close>

datatype call =
  SetCurrentFolder string
  | Book string string shape
  | SetAxisTitle string string nat
  | InitRun part

text \<open>
  \<^verbatim>\<open>RazorME\<close>: two pointers to monitor elements, \<open>None\<close> for \<^verbatim>\<open>nullptr\<close>.
\<close>

record RazorME =
  numerator :: "string option"
  denominator :: "string option"

text \<open>
  The state \<open>bookHistograms\<close> works on: the four \<^verbatim>\<open>RazorME\<close> members of the plugin and
  the calls received by the host so far.
\<close>

record booking =
  mes :: "histogram \<Rightarrow> RazorME"
  calls :: "call list"

text \<open>The constructor leaves all eight pointers null.\<close>

definition constructed :: booking where
  "constructed = \<lparr>mes = (\<lambda>h. \<lparr>numerator = None, denominator = None\<rparr>), calls = []\<rparr>"

definition setAxisTitle :: "string option \<Rightarrow> string \<Rightarrow> nat \<Rightarrow> booking \<Rightarrow> failure + booking" where
  "setAxisTitle ptr title axis st =
     (case ptr of
        None \<Rightarrow> Inl NullPointer
      | Some n \<Rightarrow> Inr (st\<lparr>calls := calls st @ [SetAxisTitle n title axis]\<rparr>))"

definition setMETitle :: "histogram \<Rightarrow> string \<Rightarrow> string \<Rightarrow> booking \<Rightarrow> failure + booking" where
  "setMETitle me titleX titleY st =
     (case setAxisTitle (numerator (mes st me)) titleX 1 st of
        Inl e \<Rightarrow> Inl e
      | Inr st1 \<Rightarrow>
     (case setAxisTitle (numerator (mes st1 me)) titleY 2 st1 of
        Inl e \<Rightarrow> Inl e
      | Inr st2 \<Rightarrow>
     (case setAxisTitle (denominator (mes st2 me)) titleX 1 st2 of
        Inl e \<Rightarrow> Inl e
      | Inr st3 \<Rightarrow> setAxisTitle (denominator (mes st3 me)) titleY 2 st3)))"

text \<open>
  The common body of the five \<open>bookME\<close> overloads: book two elements of one shape and store
  the pointers in the pair.
\<close>

definition book_pair :: "histogram \<Rightarrow> string \<Rightarrow> string \<Rightarrow> shape \<Rightarrow> booking \<Rightarrow> booking" where
  "book_pair me histname histtitle sh st =
     \<lparr>mes = (mes st)(me :=
              \<lparr>numerator = Some (histname @ ''_numerator''),
               denominator = Some (histname @ ''_denominator'')\<rparr>),
      calls = calls st
              @ [Book (histname @ ''_numerator'') (histtitle @ '' (numerator)'') sh,
                 Book (histname @ ''_denominator'') (histtitle @ '' (denominator)'') sh]\<rparr>"

text \<open>Lines 64 to 68: fixed-width one-dimensional.\<close>

definition bookME_fixed1D ::
  "histogram \<Rightarrow> string \<Rightarrow> string \<Rightarrow> int \<Rightarrow> real \<Rightarrow> real \<Rightarrow> booking \<Rightarrow> booking" where
  "bookME_fixed1D me histname histtitle nbins lo hi st =
     book_pair me histname histtitle (Fixed1D nbins lo hi) st"

text \<open>
  Lines 69 to 76: variable-width one-dimensional. The edges are copied into a vector of
  \<^verbatim>\<open>float\<close>, which narrows each of them.
\<close>

definition bookME_binning ::
  "histogram \<Rightarrow> string \<Rightarrow> string \<Rightarrow> real list \<Rightarrow> booking \<Rightarrow> booking" where
  "bookME_binning me histname histtitle binning st =
     (let nbins = int (length binning) - 1;
          fbinning = map (narrow \<circ> Finite) binning
      in book_pair me histname histtitle (Variable1D nbins fbinning) st)"

text \<open>Lines 77 to 81: profile.\<close>

definition bookME_profile ::
  "histogram \<Rightarrow> string \<Rightarrow> string \<Rightarrow> int \<Rightarrow> real \<Rightarrow> real \<Rightarrow> real \<Rightarrow> real \<Rightarrow> booking
     \<Rightarrow> booking" where
  "bookME_profile me histname histtitle nbinsX xmin xmax ymin ymax st =
     book_pair me histname histtitle (Profile nbinsX xmin xmax ymin ymax) st"

text \<open>Lines 82 to 86: fixed-width two-dimensional.\<close>

definition bookME_fixed2D ::
  "histogram \<Rightarrow> string \<Rightarrow> string \<Rightarrow> int \<Rightarrow> real \<Rightarrow> real \<Rightarrow> int \<Rightarrow> real \<Rightarrow> real \<Rightarrow> booking
     \<Rightarrow> booking" where
  "bookME_fixed2D me histname histtitle nbinsX xmin xmax nbinsY ymin ymax st =
     book_pair me histname histtitle (Fixed2D nbinsX xmin xmax nbinsY ymin ymax) st"

text \<open>Lines 87 to 98: variable-width two-dimensional.\<close>

definition bookME_binning2D ::
  "histogram \<Rightarrow> string \<Rightarrow> string \<Rightarrow> real list \<Rightarrow> real list \<Rightarrow> booking \<Rightarrow> booking" where
  "bookME_binning2D me histname histtitle binningX binningY st =
     (let nbinsX = int (length binningX) - 1;
          fbinningX = map (narrow \<circ> Finite) binningX;
          nbinsY = int (length binningY) - 1;
          fbinningY = map (narrow \<circ> Finite) binningY
      in book_pair me histname histtitle (Variable2D nbinsX fbinningX nbinsY fbinningY) st)"

definition initRun :: "part \<Rightarrow> booking \<Rightarrow> booking" where
  "initRun p st = st\<lparr>calls := calls st @ [InitRun p]\<rparr>"

text \<open>\<^verbatim>\<open>RazorMonitor::bookHistograms\<close>, lines 100 to 134.\<close>

definition bookHistograms :: "'jet RazorMonitor \<Rightarrow> booking \<Rightarrow> failure + booking" where
  "bookHistograms cfg st0 =
     (let currentFolder = folderName cfg;
          st1 = st0\<lparr>calls := calls st0 @ [SetCurrentFolder currentFolder]\<rparr>;
          st2 = bookME_binning MR_ME ''MR'' ''PF MR'' (mr_binning cfg) st1
      in
      case setMETitle MR_ME ''PF M_{R} [GeV]'' ''events / [GeV]'' st2 of
        Inl e \<Rightarrow> Inl e
      | Inr st3 \<Rightarrow>
     (let st4 = bookME_binning Rsq_ME ''Rsq'' ''PF Rsq'' (rsq_binning cfg) st3 in
      case setMETitle Rsq_ME ''PF R^{2}'' ''events'' st4 of
        Inl e \<Rightarrow> Inl e
      | Inr st5 \<Rightarrow>
     (let st6 = bookME_binning dPhiR_ME ''dPhiR'' ''dPhiR'' (dphiR_binning cfg) st5 in
      case setMETitle dPhiR_ME ''dPhi_{R}'' ''events'' st6 of
        Inl e \<Rightarrow> Inl e
      | Inr st7 \<Rightarrow>
     (let st8 = bookME_binning2D MRVsRsq_ME ''MRVsRsq'' ''PF MR vs PF Rsq''
                  (mr_binning cfg) (rsq_binning cfg) st7 in
      case setMETitle MRVsRsq_ME ''M_{R} [GeV]'' ''R^{2}'' st8 of
        Inl e \<Rightarrow> Inl e
      | Inr st9 \<Rightarrow>
     (let st10 = (if flag_on (num_genTriggerEventFlag cfg) then initRun Numerator st9 else st9);
          st11 = (if flag_on (den_genTriggerEventFlag cfg) then initRun Denominator st10 else st10)
      in Inr st11)))))"

text \<open>
  Modelled from the spec: the booker (\<^verbatim>\<open>DQMStore::IBooker\<close>) is not part of the source
  unit. The specification has histograms created under a folder path; a histogram is created
  under the folder that the last \<^verbatim>\<open>setCurrentFolder\<close> before its booking names. The
  result lists, for every booking in a sequence of calls, the folder, the name and the shape.
\<close>

fun booked :: "string \<Rightarrow> call list \<Rightarrow> (string \<times> string \<times> shape) list" where
  "booked cwd [] = []"
| "booked cwd (SetCurrentFolder f # cs) = booked f cs"
| "booked cwd (Book n t sh # cs) = (cwd, n, sh) # booked cwd cs"
| "booked cwd (SetAxisTitle n t a # cs) = booked cwd cs"
| "booked cwd (InitRun p # cs) = booked cwd cs"

definition is_1D :: "shape \<Rightarrow> bool" where
  "is_1D sh = (case sh of Fixed1D n a b \<Rightarrow> True | Variable1D n e \<Rightarrow> True | _ \<Rightarrow> False)"

definition is_2D :: "shape \<Rightarrow> bool" where
  "is_2D sh = (case sh of Fixed2D n a b m c d \<Rightarrow> True | Variable2D n e m f \<Rightarrow> True | _ \<Rightarrow> False)"

text \<open>What a freshly constructed plugin books in its first run.\<close>

definition bookings :: "'jet RazorMonitor \<Rightarrow> (string \<times> string \<times> shape) list" where
  "bookings cfg =
     (case bookHistograms cfg constructed of
        Inl e \<Rightarrow> []
      | Inr st \<Rightarrow> booked [] (calls st))"

text \<open>The calls that \<open>bookHistograms\<close> adds for one pair: two bookings and four axis titles.\<close>

definition pair_calls :: "string \<Rightarrow> string \<Rightarrow> shape \<Rightarrow> string \<Rightarrow> string \<Rightarrow> call list" where
  "pair_calls histname histtitle sh titleX titleY =
     [Book (histname @ ''_numerator'') (histtitle @ '' (numerator)'') sh,
      Book (histname @ ''_denominator'') (histtitle @ '' (denominator)'') sh,
      SetAxisTitle (histname @ ''_numerator'') titleX 1,
      SetAxisTitle (histname @ ''_numerator'') titleY 2,
      SetAxisTitle (histname @ ''_denominator'') titleX 1,
      SetAxisTitle (histname @ ''_denominator'') titleY 2]"

subsection \<open>A configuration and events to evaluate on\<close>

text \<open>
  The defaults of \<open>fillDescriptions\<close> (lines 230 to 277), with the two trigger-flag evaluators
  as parameters. A jet is represented by its transverse momentum, which is all the default
  jet selection \<^verbatim>\<open>pt > 80\<close> reads; the default MET selection is \<^verbatim>\<open>pt > 0\<close>.
\<close>

definition default_config ::
  "real Event GenericTriggerEventFlag \<Rightarrow> real Event GenericTriggerEventFlag \<Rightarrow> real RazorMonitor"
  where
  "default_config num den =
     \<lparr>folderName = ''HLT/SUSY/Razor'',
      rsq_binning = [0, 5 / 100, 1 / 10, 15 / 100, 2 / 10, 25 / 100, 30 / 100, 41 / 100,
                     52 / 100, 64 / 100, 8 / 10, 15 / 10],
      mr_binning = [0, 100, 200, 300, 400, 500, 575, 650, 750, 900, 1200, 1600, 2500, 4000],
      dphiR_binning = [0, 5 / 10, 1, 15 / 10, 2, 25 / 10, 28 / 10, 3, 32 / 10],
      num_genTriggerEventFlag = num,
      den_genTriggerEventFlag = den,
      metSelection = (\<lambda>m. sqrt (fX (momentum m) * fX (momentum m)
                                + fY (momentum m) * fY (momentum m)) > 0),
      jetSelection = (\<lambda>pt. pt > 80),
      njets = 2,
      rsqCut = Finite (15 / 100),
      mrCut = Finite 300\<rparr>"

definition accepting :: "'ev GenericTriggerEventFlag" where
  "accepting = \<lparr>flag_on = True, accept = (\<lambda>ev n. True)\<rparr>"

definition rejecting :: "'ev GenericTriggerEventFlag" where
  "rejecting = \<lparr>flag_on = True, accept = (\<lambda>ev n. False)\<rparr>"

text \<open>An evaluator that accepts when first asked and rejects every later call.\<close>

definition accepting_once :: "'ev GenericTriggerEventFlag" where
  "accepting_once = \<lparr>flag_on = True, accept = (\<lambda>ev n. n = 0)\<rparr>"

text \<open>
  Two soft back-to-back hemispheres along the x axis, a large missing momentum along x and
  two hard jets.
\<close>

definition soft_event :: "real Event" where
  "soft_event =
     \<lparr>metHandle = Some [\<lparr>momentum = \<lparr>fX = 64, fY = 0, fZ = 0\<rparr>\<rparr>],
      jetHandle = Some [100, 90],
      hemispheres = Some [\<lparr>Px = 1 / 16, Py = 0, Pz = 0, E = 1 / 16\<rparr>,
                          \<lparr>Px = - 1 / 16, Py = 0, Pz = 0, E = 1 / 16\<rparr>]\<rparr>"

text \<open>
  The same event with a missing momentum of 8, for which \<open>R\<^sup>2\<close> is one half when computed
  in the reals.
\<close>

definition half_event :: "real Event" where
  "half_event = soft_event\<lparr>metHandle := Some [\<lparr>momentum = \<lparr>fX = 8, fY = 0, fZ = 0\<rparr>\<rparr>]\<rparr>"

text \<open>The same event with two hard hemispheres, exactly back to back in the transverse plane.\<close>

definition back_to_back_event :: "real Event" where
  "back_to_back_event =
     soft_event\<lparr>hemispheres := Some [\<lparr>Px = 1, Py = 0, Pz = 0, E = 1\<rparr>,
                                      \<lparr>Px = - 1, Py = 0, Pz = 0, E = 1\<rparr>]\<rparr>"

text \<open>The same event after a hemisphere maker that gave up: an empty collection.\<close>

definition empty_hemispheres_event :: "real Event" where
  "empty_hemispheres_event = soft_event\<lparr>hemispheres := Some []\<rparr>"

text \<open>Two hemispheres of transverse momenta 3 and 4, the softer one stored first.\<close>

definition hemisphere_3 :: XYZTLorentzVector where
  "hemisphere_3 = \<lparr>Px = 3, Py = 0, Pz = 0, E = 3\<rparr>"

definition hemisphere_4 :: XYZTLorentzVector where
  "hemisphere_4 = \<lparr>Px = 4, Py = 0, Pz = 0, E = 4\<rparr>"

section \<open>Properties of the event callback\<close>

subsection \<open>Doubles\<close>

lemma minus_one_double: "(- 1 :: double) = Finite (- 1)"
  by (simp add: one_double_def)

lemma divide_NaN: "(x :: double) / NaN = NaN"
  by (cases x) simp_all


lemma NaN_not_less: "\<not> NaN < (b :: double)" "\<not> b \<le> NaN"
  by (cases b; simp)+

lemma round_half_even_eval:
  assumes "of_int n - 1 / 2 < r" and "r < of_int n + 1 / 2"
  shows "round_half_even r = n"
proof (cases "r < of_int n")
  case True
  with assms have "\<lfloor>r\<rfloor> = n - 1" by (simp add: floor_eq_iff)
  with assms True show ?thesis by (simp add: round_half_even_def)
next
  case False
  with assms have "\<lfloor>r\<rfloor> = n" by (simp add: floor_eq_iff)
  with assms False show ?thesis by (simp add: round_half_even_def)
qed

lemma narrow_eval:
  assumes "x \<noteq> 0" and "\<lfloor>log 2 \<bar>x\<bar>\<rfloor> = e0" and "e = max e0 (- 126)"
    and "round_half_even (x / 2 powi (e - 23)) = n"
    and "\<bar>of_int n * 2 powi (e - 23)\<bar> < (2 :: real) ^ 128"
  shows "narrow (Finite x) = Finite (of_int n * 2 powi (e - 23))"
  using assms by (simp add: Let_def)

lemma narrow_2: "narrow (Finite 2) = Finite 2"
  by (simp add: round_half_even_def Let_def power_int_minus)

lemma narrow_minus_1: "narrow (Finite (- 1)) = Finite (- 1)"
  by (simp add: round_half_even_def Let_def power_int_minus)

lemma narrow_minus_2: "narrow (Finite (- 2)) = Finite (- 2)"
  by (simp add: round_half_even_def Let_def power_int_minus)

text \<open>The narrowing of one tenth is the \<^verbatim>\<open>float\<close> \<^verbatim>\<open>0x3DCCCCCD\<close>.\<close>

lemma narrow_tenth: "narrow (Finite (1 / 10)) = Finite (13421773 / 134217728)"
proof -
  have "\<lfloor>log 2 (1 / 10 :: real)\<rfloor> = - 4"
    by (subst floor_log_eq_powr_iff) (simp_all add: powr_minus)
  then have e: "\<lfloor>log 2 \<bar>1 / 10 :: real\<bar>\<rfloor> = - 4" by simp
  have r: "round_half_even ((1 / 10) / 2 powi (max (- 4) (- 126) - 23)) = 13421773"
    by (rule round_half_even_eval) (simp_all add: power_int_minus)
  have "narrow (Finite (1 / 10)) = Finite (of_int 13421773 * 2 powi (max (- 4) (- 126) - 23))"
    by (rule narrow_eval [OF _ e refl r]) (simp_all add: power_int_minus)
  then show ?thesis by (simp add: power_int_minus)
qed

text \<open>
  The narrowing of \<open>\<surd>(1/2)\<close> is the \<^verbatim>\<open>float\<close> \<^verbatim>\<open>0x3F3504F3\<close>, whose square is below
  one half.
\<close>

lemma sqrt_half_bounds:
  "23726565 / 33554432 < sqrt (1 / 2 :: real)" "sqrt (1 / 2 :: real) < 23726567 / 33554432"
proof -
  have "(23726565 / 33554432 :: real) = sqrt ((23726565 / 33554432) * (23726565 / 33554432))"
    by (subst real_sqrt_abs2) simp
  also have "\<dots> < sqrt (1 / 2)" by (subst real_sqrt_less_iff) simp
  finally show "23726565 / 33554432 < sqrt (1 / 2 :: real)" .
  have "sqrt (1 / 2 :: real) < sqrt ((23726567 / 33554432) * (23726567 / 33554432))"
    by (subst real_sqrt_less_iff) simp
  also have "\<dots> = 23726567 / 33554432" by (subst real_sqrt_abs2) simp
  finally show "sqrt (1 / 2 :: real) < 23726567 / 33554432" .
qed

lemma narrow_sqrt_half: "narrow (Finite (sqrt (1 / 2))) = Finite (11863283 / 16777216)"
proof -
  note b = sqrt_half_bounds
  have pos: "0 < sqrt (1 / 2 :: real)" by simp
  have "\<lfloor>log 2 (sqrt (1 / 2 :: real))\<rfloor> = - 1"
    using b by (subst floor_log_eq_powr_iff) (simp_all add: powr_minus)
  with pos have e: "\<lfloor>log 2 \<bar>sqrt (1 / 2 :: real)\<bar>\<rfloor> = - 1" by simp
  have r: "round_half_even (sqrt (1 / 2) / 2 powi (max (- 1) (- 126) - 23)) = 11863283"
    using b by (intro round_half_even_eval) (simp_all add: power_int_minus)
  have "narrow (Finite (sqrt (1 / 2))) =
      Finite (of_int 11863283 * 2 powi (max (- 1) (- 126) - 23))"
    using pos by (intro narrow_eval [OF _ e refl r]) (simp_all add: power_int_minus)
  then show ?thesis by (simp add: power_int_minus)
qed

lemma narrow_minus_float_sqrt_half:
  "narrow (Finite (- (11863283 / 16777216))) = Finite (- (11863283 / 16777216))"
proof -
  have e: "\<lfloor>log 2 \<bar>- (11863283 / 16777216) :: real\<bar>\<rfloor> = - 1"
    by (subst floor_log_eq_powr_iff) (simp_all add: powr_minus)
  have r: "round_half_even (- (11863283 / 16777216) / 2 powi (max (- 1) (- 126) - 23))
             = - 11863283"
    by (intro round_half_even_eval) (simp_all add: power_int_minus)
  have "narrow (Finite (- (11863283 / 16777216))) =
      Finite (of_int (- 11863283) * 2 powi (max (- 1) (- 126) - 23))"
    by (intro narrow_eval [OF _ e refl r]) (simp_all add: power_int_minus)
  then show ?thesis by (simp add: power_int_minus)
qed

subsection \<open>The gates one by one\<close>

lemma jet_count_twice:
  "(\<not> length js < n \<and> \<not> length (filter Q js) < n) = (n \<le> length (filter Q js))"
  using length_filter_le [of Q js] by arith

lemma first_failing_gate_unfold:
  "first_failing_gate cfg ev =
     (if \<not> gate_passes cfg ev DenTrigger then Rejected DenTrigger
      else if \<not> gate_passes cfg ev MetCut then Rejected MetCut
      else if \<not> gate_passes cfg ev JetCountCut then Rejected JetCountCut
      else if \<not> gate_passes cfg ev HemisphereValidity then Rejected HemisphereValidity
      else if \<not> gate_passes cfg ev RazorCut then Rejected RazorCut
      else if \<not> gate_passes cfg ev DenTriggerAgain then Rejected DenTriggerAgain
      else if \<not> gate_passes cfg ev NumTrigger then Rejected NumTrigger
      else Completed)"
  by (simp add: first_failing_gate_def gate_order_def)

lemma gate_passes_DenTrigger:
  "gate_passes cfg ev DenTrigger =
     (flag_on (den_genTriggerEventFlag cfg) \<longrightarrow> accept (den_genTriggerEventFlag cfg) ev 0)"
  by (simp add: gate_passes_def)

lemma gate_passes_MetCut:
  "gate_passes cfg ev MetCut =
     (case front (metHandle ev) of Inl e \<Rightarrow> False | Inr pfmet \<Rightarrow> metSelection cfg pfmet)"
  by (simp add: gate_passes_def front_def split: option.splits list.splits)

lemma gate_passes_JetCountCut:
  "gate_passes cfg ev JetCountCut =
     (case deref (jetHandle ev) of
        Inl e \<Rightarrow> False
      | Inr jetColl \<Rightarrow>
          \<not> length jetColl < njets cfg \<and> \<not> length (filter (jetSelection cfg) jetColl) < njets cfg)"
  by (simp add: gate_passes_def deref_def jet_count_twice split: option.splits)

lemma gate_passes_HemisphereValidity:
  "gate_passes cfg ev HemisphereValidity =
     (case hemispheres ev of
        Some hs \<Rightarrow> length hs = 2 \<or> length hs = 5 \<or> length hs = 10
      | None \<Rightarrow> False)"
  by (simp add: gate_passes_def)

lemma gate_passes_RazorCut:
  "gate_passes cfg ev RazorCut =
     (case hemispheres ev of
        Some hs \<Rightarrow>
          (case razor_variables (metHandle ev) hs of
             Inr (MR, Rsq, dPhiR) \<Rightarrow> \<not> (Rsq < rsqCut cfg \<and> MR < mrCut cfg)
           | Inl e \<Rightarrow> False)
      | None \<Rightarrow> False)"
  by (simp add: gate_passes_def)

lemma gate_passes_DenTriggerAgain:
  "gate_passes cfg ev DenTriggerAgain =
     (flag_on (den_genTriggerEventFlag cfg) \<longrightarrow> accept (den_genTriggerEventFlag cfg) ev 1)"
  by (simp add: gate_passes_def)

lemma gate_passes_NumTrigger:
  "gate_passes cfg ev NumTrigger =
     (flag_on (num_genTriggerEventFlag cfg) \<longrightarrow> accept (num_genTriggerEventFlag cfg) ev 0)"
  by (simp add: gate_passes_def)

lemma reaches_hemisphere_check_gates:
  "reaches_hemisphere_check cfg ev =
     (gate_passes cfg ev DenTrigger \<and> gate_passes cfg ev MetCut \<and> gate_passes cfg ev JetCountCut)"
  by (simp add: reaches_hemisphere_check_def gate_passes_DenTrigger gate_passes_MetCut
      gate_passes_JetCountCut)

lemma reaches_razor_cut_split:
  "reaches_razor_cut cfg ev v =
     (reaches_hemisphere_check cfg ev \<and> gate_passes cfg ev HemisphereValidity
      \<and> (\<exists>hs. hemispheres ev = Some hs \<and> razor_variables (metHandle ev) hs = Inr v))"
  by (auto simp: reaches_razor_cut_def reaches_hemisphere_check_def
      gate_passes_HemisphereValidity split: option.splits)

lemma analyze_early:
  assumes "\<not> reaches_hemisphere_check cfg ev" and "analyze cfg ev = Inr (x, effs)"
  shows "effs = [] \<and> x = first_failing_gate cfg ev"
proof (cases "gate_passes cfg ev DenTrigger")
  case False
  with assms(2) show ?thesis
    by (simp add: first_failing_gate_unfold analyze_def gate_passes_DenTrigger)
next
  case den: True
  show ?thesis
  proof (cases "gate_passes cfg ev MetCut")
    case False
    with den assms(2) show ?thesis
      by (simp add: first_failing_gate_unfold, simp add: analyze_def gate_passes_DenTrigger
          gate_passes_MetCut split: sum.splits if_splits)
  next
    case met: True
    with den assms(1) have jet: "\<not> gate_passes cfg ev JetCountCut"
      by (simp add: reaches_hemisphere_check_gates)
    with den met assms(2) show ?thesis
      by (simp add: first_failing_gate_unfold, simp add: analyze_def gate_passes_DenTrigger
          gate_passes_MetCut gate_passes_JetCountCut Let_def split: sum.splits if_splits)
  qed
qed

lemma analyze_late:
  "reaches_hemisphere_check cfg ev \<Longrightarrow> analyze cfg ev = check_hemispheres cfg ev"
  by (auto simp: reaches_hemisphere_check_def analyze_def Let_def split: sum.splits)

lemma check_hemispheres_invalid:
  assumes "\<not> gate_passes cfg ev HemisphereValidity"
  shows "check_hemispheres cfg ev =
     Inr (Rejected HemisphereValidity,
          (case hemispheres ev of
             None \<Rightarrow> []
           | Some hs \<Rightarrow> if length hs = 0 then [LogError TooManyJets]
                        else [LogError (InvalidHemisphereCollection (length hs))]))"
  using assms
  by (auto simp: gate_passes_HemisphereValidity check_hemispheres_def split: option.splits)

lemma check_hemispheres_valid:
  assumes "gate_passes cfg ev HemisphereValidity" and "hemispheres ev = Some hs"
  shows "check_hemispheres cfg ev =
     (case razor_variables (metHandle ev) hs of
        Inl e \<Rightarrow> Inl e
      | Inr v \<Rightarrow> Inr (select_and_fill cfg ev v))"
  using assms
  by (auto simp: gate_passes_HemisphereValidity check_hemispheres_def split: option.splits)

lemma analyze_hemisphere_rejected:
  assumes "reaches_hemisphere_check cfg ev" and "\<not> gate_passes cfg ev HemisphereValidity"
  shows "analyze cfg ev =
     Inr (Rejected HemisphereValidity,
          (case hemispheres ev of
             None \<Rightarrow> []
           | Some hs \<Rightarrow> if length hs = 0 then [LogError TooManyJets]
                        else [LogError (InvalidHemisphereCollection (length hs))]))"
  using assms by (simp add: analyze_late check_hemispheres_invalid)

lemma analyze_reaches_razor_cut:
  assumes "reaches_razor_cut cfg ev v"
  shows "analyze cfg ev = Inr (select_and_fill cfg ev v)"
proof -
  from assms obtain hs where h: "reaches_hemisphere_check cfg ev"
      "gate_passes cfg ev HemisphereValidity" "hemispheres ev = Some hs"
      "razor_variables (metHandle ev) hs = Inr v"
    by (auto simp: reaches_razor_cut_split)
  then show ?thesis by (simp add: analyze_late check_hemispheres_valid)
qed

lemma analyze_past_hemispheres:
  assumes "analyze cfg ev = Inr (x, effs)" and "reaches_hemisphere_check cfg ev"
    and "gate_passes cfg ev HemisphereValidity"
  shows "\<exists>v. reaches_razor_cut cfg ev v \<and> select_and_fill cfg ev v = (x, effs)"
proof -
  from assms(3) obtain hs where hs: "hemispheres ev = Some hs"
    by (auto simp: gate_passes_HemisphereValidity split: option.splits)
  with assms have "(case razor_variables (metHandle ev) hs of
        Inl e \<Rightarrow> Inl e | Inr v \<Rightarrow> Inr (select_and_fill cfg ev v)) = Inr (x, effs)"
    by (simp add: analyze_late check_hemispheres_valid)
  then obtain v where v: "razor_variables (metHandle ev) hs = Inr v"
      "select_and_fill cfg ev v = (x, effs)"
    by (auto split: sum.splits)
  with assms(2,3) hs have "reaches_razor_cut cfg ev v"
    by (auto simp: reaches_razor_cut_split)
  with v show ?thesis by blast
qed

lemma select_and_fill_exit:
  "fst (select_and_fill cfg ev (MR, Rsq, dPhiR)) =
     (if Rsq < rsqCut cfg \<and> MR < mrCut cfg then Rejected RazorCut
      else if \<not> gate_passes cfg ev DenTriggerAgain then Rejected DenTriggerAgain
      else if \<not> gate_passes cfg ev NumTrigger then Rejected NumTrigger
      else Completed)"
  by (simp add: select_and_fill_def gate_passes_DenTriggerAgain gate_passes_NumTrigger)

lemma select_and_fill_shape:
  assumes "select_and_fill cfg ev (MR, Rsq, dPhiR) = (x, effs)"
  shows "(x \<in> {Rejected RazorCut, Rejected DenTriggerAgain} \<and> effs = [])
       \<or> (x = Rejected NumTrigger \<and> effs = fill_denominator cfg MR Rsq dPhiR)
       \<or> (x = Completed
           \<and> effs = fill_denominator cfg MR Rsq dPhiR @ fill_numerator cfg MR Rsq dPhiR)"
  using assms by (auto simp: select_and_fill_def split: if_splits)

lemma reaches_razor_cut_exit:
  assumes "reaches_razor_cut cfg ev (MR, Rsq, dPhiR)"
  shows "fst (select_and_fill cfg ev (MR, Rsq, dPhiR)) = first_failing_gate cfg ev"
proof -
  from assms obtain hs where h: "reaches_hemisphere_check cfg ev"
      "gate_passes cfg ev HemisphereValidity" "hemispheres ev = Some hs"
      "razor_variables (metHandle ev) hs = Inr (MR, Rsq, dPhiR)"
    by (auto simp: reaches_razor_cut_split)
  from h(3,4) have rc: "gate_passes cfg ev RazorCut = (\<not> (Rsq < rsqCut cfg \<and> MR < mrCut cfg))"
    by (auto simp: gate_passes_RazorCut)
  from h(1) have g: "gate_passes cfg ev DenTrigger" "gate_passes cfg ev MetCut"
      "gate_passes cfg ev JetCountCut"
    by (simp_all add: reaches_hemisphere_check_gates)
  show ?thesis
    unfolding select_and_fill_exit first_failing_gate_unfold
    using g h(2) rc by simp
qed

subsection \<open>Fills and the shape of a return\<close>

lemma fill_denominator_parts:
  "e \<in> set (fill_denominator cfg MR Rsq dPhiR) \<Longrightarrow> is_fill_of Denominator e"
  by (auto simp: fill_denominator_def is_fill_of_def split: if_splits)

lemma fill_numerator_parts:
  "e \<in> set (fill_numerator cfg MR Rsq dPhiR) \<Longrightarrow> is_fill_of Numerator e"
  by (auto simp: fill_numerator_def is_fill_of_def split: if_splits)

lemma fill_denominator_not_numerator:
  "e \<in> set (fill_denominator cfg MR Rsq dPhiR) \<Longrightarrow> \<not> is_fill_of Numerator e"
  by (auto simp: fill_denominator_def is_fill_of_def split: if_splits)

lemma fill_numerator_not_denominator:
  "e \<in> set (fill_numerator cfg MR Rsq dPhiR) \<Longrightarrow> \<not> is_fill_of Denominator e"
  by (auto simp: fill_numerator_def is_fill_of_def split: if_splits)

lemma fill_denominator_nonempty:
  "Fill Denominator dPhiR_ME [Finite dPhiR] \<in> set (fill_denominator cfg MR Rsq dPhiR)"
  by (simp add: fill_denominator_def)

lemma fill_numerator_nonempty:
  "Fill Numerator dPhiR_ME [Finite dPhiR] \<in> set (fill_numerator cfg MR Rsq dPhiR)"
  by (simp add: fill_numerator_def)

lemma fill_numerator_in_denominator:
  "Fill Numerator h v \<in> set (fill_numerator cfg MR Rsq dPhiR) \<Longrightarrow>
     Fill Denominator h v \<in> set (fill_denominator cfg MR Rsq dPhiR)"
  by (auto simp: fill_numerator_def fill_denominator_def split: if_splits)

lemma append_fill_order:
  assumes ds: "\<And>e. e \<in> set ds \<Longrightarrow> \<not> is_fill_of Numerator e"
    and ns: "\<And>e. e \<in> set ns \<Longrightarrow> \<not> is_fill_of Denominator e"
    and i: "i < length (ds @ ns)" "is_fill_of Numerator ((ds @ ns) ! i)"
    and j: "j < length (ds @ ns)" "is_fill_of Denominator ((ds @ ns) ! j)"
  shows "j < i"
proof -
  have "\<not> i < length ds"
  proof
    assume "i < length ds"
    then have "(ds @ ns) ! i \<in> set ds" by (simp add: nth_append)
    with ds i(2) show False by blast
  qed
  moreover have "j < length ds"
  proof (rule ccontr)
    assume "\<not> j < length ds"
    with j(1) have "(ds @ ns) ! j \<in> set ns" by (simp add: nth_append)
    with ns j(2) show False by blast
  qed
  ultimately show ?thesis by simp
qed

lemma early_exit_is_early:
  assumes "\<not> reaches_hemisphere_check cfg ev"
  shows "first_failing_gate cfg ev \<in> {Rejected DenTrigger, Rejected MetCut, Rejected JetCountCut}"
  using assms by (auto simp: reaches_hemisphere_check_gates first_failing_gate_unfold)

text \<open>Every normal return of the callback, by the stage at which it happens.\<close>

lemma analyze_returns:
  assumes "analyze cfg ev = Inr (x, effs)"
  shows "(x = first_failing_gate cfg ev \<and> effs = []
          \<and> x \<in> {Rejected DenTrigger, Rejected MetCut, Rejected JetCountCut})
       \<or> (x = first_failing_gate cfg ev \<and> x = Rejected HemisphereValidity
          \<and> reaches_hemisphere_check cfg ev
          \<and> effs = (case hemispheres ev of
                None \<Rightarrow> []
              | Some hs \<Rightarrow> if length hs = 0 then [LogError TooManyJets]
                           else [LogError (InvalidHemisphereCollection (length hs))]))
       \<or> (\<exists>MR Rsq dPhiR. reaches_razor_cut cfg ev (MR, Rsq, dPhiR)
            \<and> x = first_failing_gate cfg ev
            \<and> select_and_fill cfg ev (MR, Rsq, dPhiR) = (x, effs))"
proof (cases "reaches_hemisphere_check cfg ev")
  case False
  with assms early_exit_is_early [OF False] show ?thesis
    by (auto dest: analyze_early)
next
  case r: True
  show ?thesis
  proof (cases "gate_passes cfg ev HemisphereValidity")
    case False
    from r have "first_failing_gate cfg ev = Rejected HemisphereValidity"
      using False by (simp add: reaches_hemisphere_check_gates first_failing_gate_unfold)
    with assms analyze_hemisphere_rejected [OF r False] r show ?thesis by simp
  next
    case True
    from analyze_past_hemispheres [OF assms r True]
    obtain v where v: "reaches_razor_cut cfg ev v" "select_and_fill cfg ev v = (x, effs)"
      by blast
    obtain MR Rsq dPhiR where t: "v = (MR, Rsq, dPhiR)" by (cases v) auto
    from v t reaches_razor_cut_exit [of cfg ev MR Rsq dPhiR]
    have "x = first_failing_gate cfg ev" by simp
    with v t show ?thesis by blast
  qed
qed

text \<open>
  The callback fails to return normally only on the two collections it dereferences without a
  check, and only once the denominator trigger has let the event through; the razor
  computation itself never fails where it is reached.
\<close>

lemma razor_variables_succeeds:
  assumes "1 < length hs" and "front metH = Inr m"
  shows "\<exists>v. razor_variables metH hs = Inr v"
  using assms
  by (auto simp: razor_variables_def at_index_def CalcR_def Let_def split: prod.splits)

lemma analyze_failure:
  "analyze cfg ev = Inl e \<longleftrightarrow>
     gate_passes cfg ev DenTrigger
     \<and> (front (metHandle ev) = Inl e
        \<or> (gate_passes cfg ev MetCut \<and> deref (jetHandle ev) = Inl e))"
proof (cases "gate_passes cfg ev DenTrigger")
  case False
  then show ?thesis by (simp add: analyze_def gate_passes_DenTrigger)
next
  case den: True
  show ?thesis
  proof (cases "front (metHandle ev)")
    case (Inl a)
    with den show ?thesis
      by (auto simp: analyze_def gate_passes_DenTrigger gate_passes_MetCut)
  next
    case met: (Inr m)
    show ?thesis
    proof (cases "metSelection cfg m")
      case False
      with den met show ?thesis
        by (auto simp: analyze_def gate_passes_DenTrigger gate_passes_MetCut)
    next
      case sel: True
      show ?thesis
      proof (cases "deref (jetHandle ev)")
        case (Inl a)
        with den met sel show ?thesis
          by (auto simp: analyze_def gate_passes_DenTrigger gate_passes_MetCut)
      next
        case jets: (Inr js)
        have "analyze cfg ev \<noteq> Inl e"
        proof (cases "reaches_hemisphere_check cfg ev")
          case False
          with den met sel jets show ?thesis
            by (auto simp: analyze_def reaches_hemisphere_check_def Let_def)
        next
          case r: True
          show ?thesis
          proof (cases "gate_passes cfg ev HemisphereValidity")
            case False
            from analyze_hemisphere_rejected [OF r False] show ?thesis by simp
          next
            case True
            then obtain hs where hs: "hemispheres ev = Some hs" "1 < length hs"
              by (auto simp: gate_passes_HemisphereValidity split: option.splits)
            from razor_variables_succeeds [OF hs(2) met]
            obtain v where "razor_variables (metHandle ev) hs = Inr v" by blast
            with analyze_late [OF r] check_hemispheres_valid [OF True hs(1)]
            show ?thesis by simp
          qed
        qed
        with den met sel jets show ?thesis by (simp add: gate_passes_MetCut)
      qed
    qed
  qed
qed

subsection \<open>Razor variables\<close>

lemma deltaPhi_range: "- pi < deltaPhi a b \<and> deltaPhi a b \<le> pi"
proof -
  define d where "d = a - b"
  define n where "n = \<lceil>(d - pi) / (2 * pi)\<rceil>"
  have p: "0 < 2 * pi" by simp
  have "(d - pi) / (2 * pi) \<le> of_int n" unfolding n_def by linarith
  then have u: "d - pi \<le> of_int n * (2 * pi)" using p by (simp add: pos_divide_le_eq)
  have "of_int n - 1 < (d - pi) / (2 * pi)" unfolding n_def by linarith
  then have l: "(of_int n - 1) * (2 * pi) < d - pi" using p by (simp add: pos_less_divide_eq)
  have "deltaPhi a b = d - 2 * pi * of_int n" by (simp add: deltaPhi_def d_def n_def Let_def)
  with u l show ?thesis by (simp add: algebra_simps)
qed

lemma razor_variables_dPhiR:
  assumes "razor_variables metH hs = Inr (MR, Rsq, dPhiR)"
  shows "dPhiR = \<bar>deltaPhi (Phi (hs ! 0)) (Phi (hs ! 1))\<bar>"
  using assms
  by (auto simp: razor_variables_def at_index_def Let_def split: sum.splits if_splits prod.splits)

lemma razor_variables_ordered:
  assumes "1 < length hs" and "ordered_hemispheres (hs ! 0) (hs ! 1) = (ja, jb)"
  shows "razor_variables metH hs =
     (case CalcR (CalcMR ja jb) ja jb metH of
        Inl e \<Rightarrow> Inl e
      | Inr Rv \<Rightarrow> Inr (CalcMR ja jb, Rv * Rv, \<bar>deltaPhi (Phi (hs ! 0)) (Phi (hs ! 1))\<bar>))"
  using assms by (auto simp: razor_variables_def at_index_def Let_def split: sum.splits)

lemma Pt_along_x: "Pt \<lparr>Px = a, Py = 0, Pz = c, E = d\<rparr> = \<bar>a\<bar>"
  by (simp add: Pt_def)

lemma R_along_x: "R \<lparr>fX = a, fY = 0, fZ = 0\<rparr> = \<bar>a\<bar>"
  by (simp add: R_def Mag2_def)

lemma deltaPhi_0_pi: "deltaPhi 0 pi = pi"
proof -
  have "(0 - pi - pi) / (2 * pi) = - 1" by simp
  then show ?thesis by (simp add: deltaPhi_def Let_def)
qed

text \<open>
  A hard pair of massless hemispheres at right angles, of momenta 4 and 3: the formula gives
  \<open>M\<^sub>R = 7\<close>.
\<close>

lemma CalcMR_example:
  "CalcMR \<lparr>Px = 4, Py = 0, Pz = 0, E = 4\<rparr> \<lparr>Px = 0, Py = 3, Pz = 0, E = 3\<rparr> = Finite 7"
proof -
  have a: "sqrt (16::real) = 4" using real_sqrt_abs2 [of 4] by simp
  have b: "sqrt (9::real) = 3" using real_sqrt_abs2 [of 3] by simp
  have c: "sqrt (1225::real) = 35" using real_sqrt_abs2 [of 35] by simp
  have d: "sqrt (24 / 25 :: real) = sqrt 24 / 5"
    using real_sqrt_divide [of 24 25] real_sqrt_abs2 [of 5] by simp
  have e: "sqrt (1176 / 25 :: real) = 7 * sqrt 24 / 5"
  proof -
    have "sqrt (49 * 24 / 25 :: real) = sqrt 49 * sqrt 24 / sqrt 25"
      by (simp only: real_sqrt_mult real_sqrt_divide)
    moreover have "sqrt (49::real) = 7" using real_sqrt_abs2 [of 7] by simp
    moreover have "sqrt (25::real) = 5" using real_sqrt_abs2 [of 5] by simp
    moreover have "(49 * 24 / 25 :: real) = 1176 / 25" by simp
    ultimately show ?thesis by simp
  qed
  have f: "sqrt (24::real) \<noteq> 0" by simp
  show ?thesis
    using f by (simp add: CalcMR_def Pt_def P_def SetXYZ_def vplus_def Mag2_def Dot_def Let_def
      minus_double_def one_double_def a b c d e)
qed

text \<open>
  Two hard hemispheres exactly back to back in the transverse plane: the transverse sum
  vanishes, \<open>0 / 0\<close> is NaN, and so is \<open>M\<^sub>R\<close>.
\<close>

lemma CalcMR_back_to_back:
  "CalcMR \<lparr>Px = 1, Py = 0, Pz = 0, E = 1\<rparr> \<lparr>Px = - 1, Py = 0, Pz = 0, E = 1\<rparr> = NaN"
  by (simp add: CalcMR_def Pt_def P_def SetXYZ_def vplus_def Mag2_def Dot_def Let_def
      minus_double_def one_double_def)

subsection \<open>The callback on concrete events\<close>

lemma soft_event_razor_variables:
  "razor_variables (metHandle soft_event)
     [\<lparr>Px = 1 / 16, Py = 0, Pz = 0, E = 1 / 16\<rparr>, \<lparr>Px = - 1 / 16, Py = 0, Pz = 0, E = 1 / 16\<rparr>]
   = Inr (- 1, Finite 4, pi)"
  by (simp add: razor_variables_def at_index_def ordered_hemispheres_def Pt_along_x CalcMR_def
      CalcR_def front_def soft_event_def R_along_x Dot_def vplus_def Vect_def Phi_def atan2_def
      deltaPhi_0_pi minus_one_double narrow_2 narrow_minus_1 narrow_minus_2 Let_def
      del: narrow.simps(1))

lemma soft_event_reaches_razor_cut:
  "reaches_razor_cut (default_config num den) soft_event (- 1, Finite 4, pi)
     = (flag_on den \<longrightarrow> accept den soft_event 0)"
  using soft_event_razor_variables
  by (simp add: reaches_razor_cut_def default_config_def front_def deref_def soft_event_def)

lemma soft_event_analyze:
  "analyze (default_config accepting accepting) soft_event =
     Inr (Completed,
          [Fill Denominator MR_ME [- 1], Fill Denominator dPhiR_ME [Finite pi],
           Fill Denominator MRVsRsq_ME [- 1, Finite 4],
           Fill Numerator MR_ME [- 1], Fill Numerator dPhiR_ME [Finite pi],
           Fill Numerator MRVsRsq_ME [- 1, Finite 4]])"
proof -
  have "reaches_razor_cut (default_config accepting accepting) soft_event (- 1, Finite 4, pi)"
    by (simp add: soft_event_reaches_razor_cut accepting_def)
  from analyze_reaches_razor_cut [OF this] show ?thesis
    by (simp add: select_and_fill_def default_config_def accepting_def fill_denominator_def
        fill_numerator_def minus_one_double)
qed

lemma soft_event_numerator_rejected:
  "analyze (default_config rejecting accepting) soft_event =
     Inr (Rejected NumTrigger,
          [Fill Denominator MR_ME [- 1], Fill Denominator dPhiR_ME [Finite pi],
           Fill Denominator MRVsRsq_ME [- 1, Finite 4]])"
proof -
  have "reaches_razor_cut (default_config rejecting accepting) soft_event (- 1, Finite 4, pi)"
    by (simp add: soft_event_reaches_razor_cut accepting_def)
  from analyze_reaches_razor_cut [OF this] show ?thesis
    by (simp add: select_and_fill_def default_config_def accepting_def rejecting_def
        fill_denominator_def minus_one_double)
qed

text \<open>
  A denominator evaluator that changes its mind between its two calls: the event gets past
  the razor cut and leaves at line 197, before any fill.
\<close>

lemma soft_event_denominator_rejected_again:
  "analyze (default_config accepting accepting_once) soft_event =
     Inr (Rejected DenTriggerAgain, [])"
proof -
  have "reaches_razor_cut (default_config accepting accepting_once) soft_event
          (- 1, Finite 4, pi)"
    by (simp add: soft_event_reaches_razor_cut accepting_once_def)
  from analyze_reaches_razor_cut [OF this] show ?thesis
    by (simp add: select_and_fill_def default_config_def accepting_once_def minus_one_double)
qed

text \<open>
  The back-to-back event: \<open>M\<^sub>R\<close> and \<open>R\<^sup>2\<close> are NaN, neither is below its cut, and the
  callback completes, filling the \<open>dPhiR\<close> and \<open>MRVsRsq\<close> histograms only.
\<close>

lemma back_to_back_razor_variables:
  "razor_variables (metHandle back_to_back_event)
     [\<lparr>Px = 1, Py = 0, Pz = 0, E = 1\<rparr>, \<lparr>Px = - 1, Py = 0, Pz = 0, E = 1\<rparr>]
   = Inr (NaN, NaN, pi)"
  by (simp add: razor_variables_def at_index_def ordered_hemispheres_def Pt_along_x
      CalcMR_back_to_back CalcR_def front_def back_to_back_event_def soft_event_def
      divide_NaN Phi_def atan2_def deltaPhi_0_pi Let_def del: narrow.simps(1))

lemma back_to_back_analyze:
  "analyze (default_config accepting accepting) back_to_back_event =
     Inr (Completed,
          [Fill Denominator dPhiR_ME [Finite pi], Fill Denominator MRVsRsq_ME [NaN, NaN],
           Fill Numerator dPhiR_ME [Finite pi], Fill Numerator MRVsRsq_ME [NaN, NaN]])"
proof -
  have "reaches_razor_cut (default_config accepting accepting) back_to_back_event
          (NaN, NaN, pi)"
    using back_to_back_razor_variables
    by (simp add: reaches_razor_cut_def default_config_def front_def deref_def
        back_to_back_event_def soft_event_def accepting_def)
  from analyze_reaches_razor_cut [OF this] show ?thesis
    by (simp add: select_and_fill_def default_config_def accepting_def fill_denominator_def
        fill_numerator_def)
qed

text \<open>
  The event whose \<open>R\<^sup>2\<close> is one half in the reals, against a cut of one half: line 311
  works in single precision, \<open>R\<^sup>2\<close> comes out as \<open>0.49999998\<close>, and the callback leaves at
  the razor cut.
\<close>

lemma half_event_razor_variables:
  "razor_variables (metHandle half_event)
     [\<lparr>Px = 1 / 16, Py = 0, Pz = 0, E = 1 / 16\<rparr>, \<lparr>Px = - 1 / 16, Py = 0, Pz = 0, E = 1 / 16\<rparr>]
   = Inr (- 1, Finite (140737483538089 / 281474976710656), pi)"
  by (simp add: razor_variables_def at_index_def ordered_hemispheres_def Pt_along_x CalcMR_def
      CalcR_def front_def half_event_def soft_event_def R_along_x Dot_def vplus_def Vect_def
      Phi_def atan2_def deltaPhi_0_pi minus_one_double narrow_sqrt_half narrow_minus_1
      narrow_minus_float_sqrt_half Let_def del: narrow.simps(1))

lemma half_event_analyze:
  "analyze ((default_config accepting accepting)\<lparr>rsqCut := Finite (1 / 2)\<rparr>) half_event =
     Inr (Rejected RazorCut, [])"
proof -
  have "reaches_razor_cut ((default_config accepting accepting)\<lparr>rsqCut := Finite (1 / 2)\<rparr>)
          half_event (- 1, Finite (140737483538089 / 281474976710656), pi)"
    using half_event_razor_variables
    by (simp add: reaches_razor_cut_def default_config_def front_def deref_def half_event_def
        soft_event_def accepting_def)
  from analyze_reaches_razor_cut [OF this] show ?thesis
    by (simp add: select_and_fill_def default_config_def minus_one_double)
qed

subsection \<open>Booking\<close>

lemma setMETitle_booked:
  assumes "numerator (mes st me) = Some n" and "denominator (mes st me) = Some d"
  shows "setMETitle me titleX titleY st =
     Inr (st\<lparr>calls := calls st @ [SetAxisTitle n titleX 1, SetAxisTitle n titleY 2,
                                    SetAxisTitle d titleX 1, SetAxisTitle d titleY 2]\<rparr>)"
  using assms by (simp add: setMETitle_def setAxisTitle_def)

lemma book_then_title:
  "setMETitle me titleX titleY (book_pair me histname histtitle sh st) =
     Inr \<lparr>mes = (mes st)(me :=
             \<lparr>numerator = Some (histname @ ''_numerator''),
              denominator = Some (histname @ ''_denominator'')\<rparr>),
          calls = calls st @ pair_calls histname histtitle sh titleX titleY\<rparr>"
  by (simp add: setMETitle_booked [of _ _ "histname @ ''_numerator''" "histname @ ''_denominator''"]
      book_pair_def pair_calls_def)

lemma bookHistograms_result:
  "bookHistograms cfg st =
     Inr \<lparr>mes = (mes st)
        (MR_ME := \<lparr>numerator = Some ''MR_numerator'', denominator = Some ''MR_denominator''\<rparr>,
         Rsq_ME := \<lparr>numerator = Some ''Rsq_numerator'', denominator = Some ''Rsq_denominator''\<rparr>,
         dPhiR_ME := \<lparr>numerator = Some ''dPhiR_numerator'',
                       denominator = Some ''dPhiR_denominator''\<rparr>,
         MRVsRsq_ME := \<lparr>numerator = Some ''MRVsRsq_numerator'',
                         denominator = Some ''MRVsRsq_denominator''\<rparr>),
       calls = calls st
         @ [SetCurrentFolder (folderName cfg)]
         @ pair_calls ''MR'' ''PF MR''
             (Variable1D (int (length (mr_binning cfg)) - 1)
               (map (narrow \<circ> Finite) (mr_binning cfg)))
             ''PF M_{R} [GeV]'' ''events / [GeV]''
         @ pair_calls ''Rsq'' ''PF Rsq''
             (Variable1D (int (length (rsq_binning cfg)) - 1)
               (map (narrow \<circ> Finite) (rsq_binning cfg)))
             ''PF R^{2}'' ''events''
         @ pair_calls ''dPhiR'' ''dPhiR''
             (Variable1D (int (length (dphiR_binning cfg)) - 1)
               (map (narrow \<circ> Finite) (dphiR_binning cfg)))
             ''dPhi_{R}'' ''events''
         @ pair_calls ''MRVsRsq'' ''PF MR vs PF Rsq''
             (Variable2D (int (length (mr_binning cfg)) - 1)
               (map (narrow \<circ> Finite) (mr_binning cfg))
                (int (length (rsq_binning cfg)) - 1)
               (map (narrow \<circ> Finite) (rsq_binning cfg)))
             ''M_{R} [GeV]'' ''R^{2}''
         @ (if flag_on (num_genTriggerEventFlag cfg) then [InitRun Numerator] else [])
         @ (if flag_on (den_genTriggerEventFlag cfg) then [InitRun Denominator] else [])\<rparr>"
  by (simp add: bookHistograms_def bookME_binning_def bookME_binning2D_def Let_def
      book_then_title initRun_def)

section \<open>The claims\<close>

text \<open>
  C1. Whenever \<open>analyze\<close> returns, it has left at the first gate, in the order denominator
  trigger, MET cut, jet count, hemisphere validity, razor cut, denominator trigger again,
  numerator trigger, that the event does not pass, or after the last fill if it passes all of
  them. The second evaluation of the denominator trigger is a call of its own, whose answer
  may differ from the first. Denominator fills exist exactly for the events that got past the second
  denominator-trigger gate and numerator fills exactly for those that got past the
  numerator-trigger gate; every denominator fill comes before every numerator fill in the
  sequence of effects, and each numerator fill has the denominator fill of the same histogram
  with the same value in the same event.
\<close>

theorem analyze_gate_order:
  assumes "analyze cfg ev = Inr (x, effs)"
  shows "x = first_failing_gate cfg ev
       \<and> ((\<exists>e \<in> set effs. is_fill_of Denominator e) \<longleftrightarrow> x = Rejected NumTrigger \<or> x = Completed)
       \<and> ((\<exists>e \<in> set effs. is_fill_of Numerator e) \<longleftrightarrow> x = Completed)
       \<and> (\<forall>i j. i < length effs \<and> j < length effs
               \<and> is_fill_of Numerator (effs ! i) \<and> is_fill_of Denominator (effs ! j)
             \<longrightarrow> j < i)
       \<and> (\<forall>h v. Fill Numerator h v \<in> set effs \<longrightarrow> Fill Denominator h v \<in> set effs)"
proof -
  from analyze_returns [OF assms]
  consider
    (early) "x = first_failing_gate cfg ev" "effs = []"
      "x \<in> {Rejected DenTrigger, Rejected MetCut, Rejected JetCountCut}"
  | (hemi) "x = first_failing_gate cfg ev" "x = Rejected HemisphereValidity"
      "effs = (case hemispheres ev of
                None \<Rightarrow> []
              | Some hs \<Rightarrow> if length hs = 0 then [LogError TooManyJets]
                           else [LogError (InvalidHemisphereCollection (length hs))])"
  | (razor) MR Rsq dPhiR where "x = first_failing_gate cfg ev"
      "select_and_fill cfg ev (MR, Rsq, dPhiR) = (x, effs)"
    by blast
  then show ?thesis
  proof cases
    case early
    then show ?thesis by auto
  next
    case hemi
    from hemi(3) have "\<And>e p. e \<in> set effs \<Longrightarrow> \<not> is_fill_of p e"
      by (auto simp: is_fill_of_def split: option.splits if_splits)
    moreover from hemi(3) have "\<And>p h v. Fill p h v \<notin> set effs"
      by (auto split: option.splits if_splits)
    ultimately show ?thesis using hemi(1,2) by (auto dest: nth_mem)
  next
    case razor
    from select_and_fill_shape [OF razor(2)]
    consider
      (none) "x \<in> {Rejected RazorCut, Rejected DenTriggerAgain}" "effs = []"
    | (den) "x = Rejected NumTrigger" "effs = fill_denominator cfg MR Rsq dPhiR"
    | (both) "x = Completed"
        "effs = fill_denominator cfg MR Rsq dPhiR @ fill_numerator cfg MR Rsq dPhiR"
      by blast
    then show ?thesis
    proof cases
      case none
      with razor(1) show ?thesis by auto
    next
      case den
      have a: "\<exists>e \<in> set effs. is_fill_of Denominator e"
        unfolding den(2) using fill_denominator_nonempty fill_denominator_parts by blast
      have b: "\<And>e. e \<in> set effs \<Longrightarrow> \<not> is_fill_of Numerator e"
        unfolding den(2) by (rule fill_denominator_not_numerator)
      have c: "\<And>h v. Fill Numerator h v \<notin> set effs"
        using b by (force simp: is_fill_of_def)
      from b have d: "\<And>i. i < length effs \<Longrightarrow> \<not> is_fill_of Numerator (effs ! i)"
        by simp
      from razor(1) den(1) a b c d show ?thesis by auto
    next
      case both
      have a: "\<exists>e \<in> set effs. is_fill_of Denominator e"
        unfolding both(2) using fill_denominator_nonempty fill_denominator_parts
        by (metis Un_iff set_append)
      have b: "\<exists>e \<in> set effs. is_fill_of Numerator e"
        unfolding both(2) using fill_numerator_nonempty fill_numerator_parts
        by (metis Un_iff set_append)
      have c: "\<And>i j. i < length effs \<Longrightarrow> j < length effs \<Longrightarrow>
                 is_fill_of Numerator (effs ! i) \<Longrightarrow> is_fill_of Denominator (effs ! j) \<Longrightarrow> j < i"
        unfolding both(2)
        by (rule append_fill_order [OF fill_denominator_not_numerator
              fill_numerator_not_denominator])
      have d: "\<And>h v. Fill Numerator h v \<in> set effs \<Longrightarrow> Fill Denominator h v \<in> set effs"
      proof -
        fix h v
        assume "Fill Numerator h v \<in> set effs"
        then have "Fill Numerator h v \<in> set (fill_numerator cfg MR Rsq dPhiR)"
          unfolding both(2) using fill_denominator_parts [of "Fill Numerator h v" cfg MR Rsq dPhiR]
          by (auto simp: is_fill_of_def)
        then show "Fill Denominator h v \<in> set effs"
          unfolding both(2) by (simp add: fill_numerator_in_denominator)
      qed
      from razor(1) both(1) a b c d show ?thesis by blast
    qed
  qed
qed

text \<open>
  C1 on the soft event. With both triggers accepting, the callback runs to completion, three
  denominator fills followed by three numerator fills. With a denominator trigger that accepts
  its first call and rejects its second, the callback leaves at the second denominator-trigger
  gate: past the razor cut, before any fill.
\<close>

theorem analyze_gate_order_witness:
  "analyze (default_config accepting accepting) soft_event =
     Inr (Completed,
          [Fill Denominator MR_ME [- 1], Fill Denominator dPhiR_ME [Finite pi],
           Fill Denominator MRVsRsq_ME [- 1, Finite 4],
           Fill Numerator MR_ME [- 1], Fill Numerator dPhiR_ME [Finite pi],
           Fill Numerator MRVsRsq_ME [- 1, Finite 4]])
   \<and> Completed = first_failing_gate (default_config accepting accepting) soft_event
   \<and> analyze (default_config accepting accepting_once) soft_event =
       Inr (Rejected DenTriggerAgain, [])
   \<and> Rejected DenTriggerAgain =
       first_failing_gate (default_config accepting accepting_once) soft_event"
proof -
  note a = analyze_gate_order [OF soft_event_analyze, THEN conjunct1]
  note b = analyze_gate_order [OF soft_event_denominator_rejected_again, THEN conjunct1]
  show ?thesis
    by (intro conjI) (fact soft_event_analyze, fact a, fact soft_event_denominator_rejected_again,
        fact b)
qed





text \<open>
  C4, as stated, has the hemisphere of higher transverse momentum passed second. For the
  hemispheres of transverse momenta 3 and 4 (stored in this order) the vector passed first has
  transverse momentum 4 and the vector passed second has 3.
\<close>

theorem higher_pt_second_counterexample:
  "\<not> Pt (fst (ordered_hemispheres hemisphere_3 hemisphere_4))
       \<le> Pt (snd (ordered_hemispheres hemisphere_3 hemisphere_4))"
  by (simp add: ordered_hemispheres_def hemisphere_3_def hemisphere_4_def Pt_along_x)

text \<open>
  C4, amended. In the calls to \<open>CalcMR\<close> and \<open>CalcR\<close> made by \<open>analyze\<close> the hemisphere of
  higher transverse momentum is the first argument and the other one the second: element 1 is
  passed first when its transverse momentum is strictly larger than that of element 0, and
  element 0 is passed first otherwise.
\<close>

theorem higher_pt_first:
  assumes "1 < length hs"
  shows "\<exists>ja jb. ordered_hemispheres (hs ! 0) (hs ! 1) = (ja, jb)
           \<and> Pt jb \<le> Pt ja
           \<and> (Pt (hs ! 1) > Pt (hs ! 0) \<longrightarrow> ja = hs ! 1 \<and> jb = hs ! 0)
           \<and> (\<not> Pt (hs ! 1) > Pt (hs ! 0) \<longrightarrow> ja = hs ! 0 \<and> jb = hs ! 1)
           \<and> razor_variables metH hs =
               (case CalcR (CalcMR ja jb) ja jb metH of
                  Inl e \<Rightarrow> Inl e
                | Inr Rv \<Rightarrow>
                    Inr (CalcMR ja jb, Rv * Rv, \<bar>deltaPhi (Phi (hs ! 0)) (Phi (hs ! 1))\<bar>))"
proof -
  obtain ja jb where o: "ordered_hemispheres (hs ! 0) (hs ! 1) = (ja, jb)"
    by (cases "ordered_hemispheres (hs ! 0) (hs ! 1)") auto
  then have "Pt jb \<le> Pt ja"
      "Pt (hs ! 1) > Pt (hs ! 0) \<longrightarrow> ja = hs ! 1 \<and> jb = hs ! 0"
      "\<not> Pt (hs ! 1) > Pt (hs ! 0) \<longrightarrow> ja = hs ! 0 \<and> jb = hs ! 1"
    by (auto simp: ordered_hemispheres_def split: if_splits)
  with o razor_variables_ordered [OF assms o, of metH] show ?thesis by blast
qed

text \<open>C4, amended, on the hemispheres of transverse momenta 3 and 4.\<close>

theorem higher_pt_first_witness:
  "1 < length [hemisphere_3, hemisphere_4]
   \<and> ordered_hemispheres hemisphere_3 hemisphere_4 = (hemisphere_4, hemisphere_3)
   \<and> Pt hemisphere_3 \<le> Pt hemisphere_4"
proof -
  have l: "1 < length [hemisphere_3, hemisphere_4]" by simp
  have p: "Pt hemisphere_4 > Pt hemisphere_3"
    by (simp add: hemisphere_3_def hemisphere_4_def Pt_along_x)
  from higher_pt_first [OF l, of None] l p show ?thesis by auto
qed

text \<open>
  C6. For an event that reaches the razor computation, \<open>dPhiR\<close> is the absolute value of
  \<open>deltaPhi\<close> of the azimuthal angles of hemispheres 0 and 1, it lies in \<open>[0, \<pi>]\<close>, and it is
  the value of every fill of the \<open>dPhiR\<close> histograms in that event.
\<close>

theorem dPhiR_in_range:
  assumes "reaches_razor_cut cfg ev (MR, Rsq, dPhiR)"
  shows "(\<exists>hs. hemispheres ev = Some hs \<and> 1 < length hs
            \<and> dPhiR = \<bar>deltaPhi (Phi (hs ! 0)) (Phi (hs ! 1))\<bar>)
       \<and> 0 \<le> dPhiR \<and> dPhiR \<le> pi
       \<and> (\<forall>x effs p v. analyze cfg ev = Inr (x, effs) \<and> Fill p dPhiR_ME v \<in> set effs
             \<longrightarrow> v = [Finite dPhiR])"
proof -
  from assms obtain hs where hs: "hemispheres ev = Some hs"
      "length hs = 2 \<or> length hs = 5 \<or> length hs = 10"
      "razor_variables (metHandle ev) hs = Inr (MR, Rsq, dPhiR)"
    by (auto simp: reaches_razor_cut_def split: option.splits)
  from hs(3) have d: "dPhiR = \<bar>deltaPhi (Phi (hs ! 0)) (Phi (hs ! 1))\<bar>"
    by (rule razor_variables_dPhiR)
  from hs(2) have l: "1 < length hs" by auto
  from d deltaPhi_range [of "Phi (hs ! 0)" "Phi (hs ! 1)"]
  have r: "0 \<le> dPhiR \<and> dPhiR \<le> pi" by auto
  have f: "v = [Finite dPhiR]"
    if "analyze cfg ev = Inr (x, effs)" "Fill p dPhiR_ME v \<in> set effs" for x effs p v
  proof -
    from analyze_reaches_razor_cut [OF assms] that(1)
    have "select_and_fill cfg ev (MR, Rsq, dPhiR) = (x, effs)" by simp
    from select_and_fill_shape [OF this] that(2) show ?thesis
      by (auto simp: fill_denominator_def fill_numerator_def split: if_splits)
  qed
  from hs(1) l d r f show ?thesis by blast
qed

text \<open>C6 on the soft event, whose hemispheres are back to back: \<open>dPhiR = \<pi>\<close>.\<close>

theorem dPhiR_in_range_witness:
  "reaches_razor_cut (default_config accepting accepting) soft_event (- 1, Finite 4, pi)
   \<and> (0 :: real) \<le> pi \<and> pi \<le> pi"
proof -
  have r: "reaches_razor_cut (default_config accepting accepting) soft_event (- 1, Finite 4, pi)"
    by (simp add: soft_event_reaches_razor_cut accepting_def)
  from dPhiR_in_range [OF r] r show ?thesis by simp
qed

text \<open>
  C7. When \<open>analyze\<close> returns at any gate up to and including the second denominator-trigger
  gate (line 197, the second call on the denominator evaluator), no histogram has been filled. When it returns at the numerator-trigger gate, its
  effects are exactly the denominator fills for the razor variables of the event, and there is
  no numerator fill among them. In both cases the return is a normal one.
\<close>

theorem early_return_fills_nothing:
  assumes "analyze cfg ev = Inr (x, effs)"
  shows "(x \<in> {Rejected DenTrigger, Rejected MetCut, Rejected JetCountCut,
                Rejected HemisphereValidity, Rejected RazorCut, Rejected DenTriggerAgain}
            \<longrightarrow> (\<forall>e \<in> set effs. \<not> is_fill e))
       \<and> (x = Rejected NumTrigger \<longrightarrow>
            (\<exists>MR Rsq dPhiR. reaches_razor_cut cfg ev (MR, Rsq, dPhiR)
               \<and> effs = fill_denominator cfg MR Rsq dPhiR)
            \<and> (\<forall>e \<in> set effs. \<not> is_fill_of Numerator e))"
proof -
  from analyze_returns [OF assms]
  consider
    (early) "effs = []"
      "x \<in> {Rejected DenTrigger, Rejected MetCut, Rejected JetCountCut}"
  | (hemi) "x = Rejected HemisphereValidity"
      "effs = (case hemispheres ev of
                None \<Rightarrow> []
              | Some hs \<Rightarrow> if length hs = 0 then [LogError TooManyJets]
                           else [LogError (InvalidHemisphereCollection (length hs))])"
  | (razor) MR Rsq dPhiR where "reaches_razor_cut cfg ev (MR, Rsq, dPhiR)"
      "select_and_fill cfg ev (MR, Rsq, dPhiR) = (x, effs)"
    by blast
  then show ?thesis
  proof cases
    case early
    then show ?thesis by auto
  next
    case hemi
    then show ?thesis by (auto simp: is_fill_def split: option.splits if_splits)
  next
    case razor
    from select_and_fill_shape [OF razor(2)]
    consider
      (none) "x \<in> {Rejected RazorCut, Rejected DenTriggerAgain}" "effs = []"
    | (den) "x = Rejected NumTrigger" "effs = fill_denominator cfg MR Rsq dPhiR"
    | (both) "x = Completed"
      by blast
    then show ?thesis
    proof cases
      case none
      then show ?thesis by auto
    next
      case den
      with razor(1) fill_denominator_not_numerator [of _ cfg MR Rsq dPhiR]
      show ?thesis by auto
    next
      case both
      then show ?thesis by simp
    qed
  qed
qed

text \<open>
  C7 on the soft event. With a denominator trigger that rejects its second call, the callback
  leaves at the second denominator-trigger gate with no effect. With the numerator trigger
  rejecting: three denominator fills and nothing else.
\<close>

theorem early_return_fills_nothing_witness:
  "analyze (default_config accepting accepting_once) soft_event =
     Inr (Rejected DenTriggerAgain, [])
   \<and> analyze (default_config rejecting accepting) soft_event =
     Inr (Rejected NumTrigger,
          [Fill Denominator MR_ME [- 1], Fill Denominator dPhiR_ME [Finite pi],
           Fill Denominator MRVsRsq_ME [- 1, Finite 4]])
   \<and> filter (is_fill_of Numerator)
         [Fill Denominator MR_ME [- 1], Fill Denominator dPhiR_ME [Finite pi],
          Fill Denominator MRVsRsq_ME [- 1, Finite 4]] = []"
proof -
  note a = early_return_fills_nothing [OF soft_event_denominator_rejected_again]
  from early_return_fills_nothing [OF soft_event_numerator_rejected]
  have "filter (is_fill_of Numerator)
         [Fill Denominator MR_ME [- 1], Fill Denominator dPhiR_ME [Finite pi],
          Fill Denominator MRVsRsq_ME [- 1, Finite 4]] = []"
    by (simp add: is_fill_of_def)
  with a soft_event_denominator_rejected_again soft_event_numerator_rejected
  show ?thesis by blast
qed

text \<open>
  C8, as stated, speaks of every event. An event with an empty hemisphere collection that the
  denominator trigger rejects leaves at the first gate, and no error is logged.
\<close>

theorem hemisphere_error_logged_counterexample:
  "\<not> (hemispheres empty_hemispheres_event = Some [] \<longrightarrow>
        (\<exists>x effs. analyze (default_config accepting rejecting) empty_hemispheres_event
                     = Inr (x, effs)
                 \<and> LogError TooManyJets \<in> set effs))"
proof -
  have "analyze (default_config accepting rejecting) empty_hemispheres_event
          = Inr (Rejected DenTrigger, [])"
    by (simp add: analyze_def default_config_def rejecting_def)
  then show ?thesis by (simp add: empty_hemispheres_event_def)
qed

text \<open>
  C8, amended. For every event that gets past the denominator trigger, the MET cut and the jet
  count: if the hemisphere handle is invalid, \<open>analyze\<close> returns with no effect at all; if the
  collection is empty, it logs the too-many-jets error and returns; if the size is not 0, 2, 5
  or 10, it logs the invalid-collection error and returns; in these three cases the logged
  error is the only effect, so no histogram is filled; with size 2, 5 or 10 it goes on to the
  razor computation, and no other size gets there.
\<close>

theorem hemisphere_checks:
  assumes "reaches_hemisphere_check cfg ev"
  shows "(hemispheres ev = None \<longrightarrow> analyze cfg ev = Inr (Rejected HemisphereValidity, []))
       \<and> (\<forall>hs. hemispheres ev = Some hs \<and> length hs = 0 \<longrightarrow>
            analyze cfg ev = Inr (Rejected HemisphereValidity, [LogError TooManyJets]))
       \<and> (\<forall>hs. hemispheres ev = Some hs \<and> length hs \<notin> {0, 2, 5, 10} \<longrightarrow>
            analyze cfg ev =
              Inr (Rejected HemisphereValidity,
                   [LogError (InvalidHemisphereCollection (length hs))]))
       \<and> (\<forall>hs. hemispheres ev = Some hs \<and> length hs \<in> {2, 5, 10} \<longrightarrow>
            analyze cfg ev =
              (case razor_variables (metHandle ev) hs of
                 Inl e \<Rightarrow> Inl e
               | Inr v \<Rightarrow> Inr (select_and_fill cfg ev v)))
       \<and> (\<forall>v. reaches_razor_cut cfg ev v \<longrightarrow>
            (\<exists>hs. hemispheres ev = Some hs \<and> length hs \<in> {2, 5, 10}))"
proof -
  have a: "analyze cfg ev = check_hemispheres cfg ev" by (rule analyze_late [OF assms])
  show ?thesis
    unfolding a
    by (auto simp: check_hemispheres_def reaches_razor_cut_def split: option.splits)
qed

text \<open>
  C8, amended, on the event with an empty hemisphere collection and both triggers accepting.
\<close>

theorem hemisphere_checks_witness:
  "reaches_hemisphere_check (default_config accepting accepting) empty_hemispheres_event
   \<and> analyze (default_config accepting accepting) empty_hemispheres_event
       = Inr (Rejected HemisphereValidity, [LogError TooManyJets])"
proof -
  have r: "reaches_hemisphere_check (default_config accepting accepting) empty_hemispheres_event"
    by (simp add: reaches_hemisphere_check_def default_config_def accepting_def front_def
        deref_def empty_hemispheres_event_def soft_event_def)
  from hemisphere_checks [OF r] r show ?thesis
    by (simp add: empty_hemispheres_event_def)
qed

text \<open>
  C9, as stated, has five pairs booked, four of them one-dimensional. With the default
  configuration the number of booked histograms is not \<open>2 * 5\<close> and the number of
  one-dimensional ones is not \<open>2 * 4\<close>.
\<close>

theorem five_pairs_counterexample:
  "length (bookings (default_config accepting accepting)) \<noteq> 2 * 5
   \<and> length (filter (\<lambda>(folder, name, sh). is_1D sh) (bookings (default_config accepting accepting)))
       \<noteq> 2 * 4"
  by (simp add: bookings_def bookHistograms_result constructed_def pair_calls_def is_1D_def
      del: narrow.simps(1))

text \<open>
  C9, amended. \<open>bookHistograms\<close> always succeeds and creates four numerator/denominator pairs:
  three one-dimensional ones (\<open>MR\<close>, \<open>Rsq\<close>, \<open>dPhiR\<close>) with the configured variable-width bin
  edges and one two-dimensional one (\<open>MRVsRsq\<close>, the \<open>MR\<close> edges against the \<open>Rsq\<close> edges). It
  sets the current folder to the configured folder name first, so all eight histograms are
  under that folder, and the four axis-title calls of a pair follow the two bookings of that
  pair directly. Afterwards none of the eight pointers is null.
\<close>

theorem bookHistograms_books_four_pairs:
  "\<exists>st'. bookHistograms cfg st = Inr st'
     \<and> (\<forall>h. numerator (mes st' h) \<noteq> None \<and> denominator (mes st' h) \<noteq> None)
     \<and> calls st' = calls st
         @ [SetCurrentFolder (folderName cfg)]
         @ pair_calls ''MR'' ''PF MR''
             (Variable1D (int (length (mr_binning cfg)) - 1)
               (map (narrow \<circ> Finite) (mr_binning cfg)))
             ''PF M_{R} [GeV]'' ''events / [GeV]''
         @ pair_calls ''Rsq'' ''PF Rsq''
             (Variable1D (int (length (rsq_binning cfg)) - 1)
               (map (narrow \<circ> Finite) (rsq_binning cfg)))
             ''PF R^{2}'' ''events''
         @ pair_calls ''dPhiR'' ''dPhiR''
             (Variable1D (int (length (dphiR_binning cfg)) - 1)
               (map (narrow \<circ> Finite) (dphiR_binning cfg)))
             ''dPhi_{R}'' ''events''
         @ pair_calls ''MRVsRsq'' ''PF MR vs PF Rsq''
             (Variable2D (int (length (mr_binning cfg)) - 1)
               (map (narrow \<circ> Finite) (mr_binning cfg))
                (int (length (rsq_binning cfg)) - 1)
               (map (narrow \<circ> Finite) (rsq_binning cfg)))
             ''M_{R} [GeV]'' ''R^{2}''
         @ (if flag_on (num_genTriggerEventFlag cfg) then [InitRun Numerator] else [])
         @ (if flag_on (den_genTriggerEventFlag cfg) then [InitRun Denominator] else [])
     \<and> booked cwd (drop (length (calls st)) (calls st')) =
         [(folderName cfg, ''MR_numerator'',
             Variable1D (int (length (mr_binning cfg)) - 1)
               (map (narrow \<circ> Finite) (mr_binning cfg))),
          (folderName cfg, ''MR_denominator'',
             Variable1D (int (length (mr_binning cfg)) - 1)
               (map (narrow \<circ> Finite) (mr_binning cfg))),
          (folderName cfg, ''Rsq_numerator'',
             Variable1D (int (length (rsq_binning cfg)) - 1)
               (map (narrow \<circ> Finite) (rsq_binning cfg))),
          (folderName cfg, ''Rsq_denominator'',
             Variable1D (int (length (rsq_binning cfg)) - 1)
               (map (narrow \<circ> Finite) (rsq_binning cfg))),
          (folderName cfg, ''dPhiR_numerator'',
             Variable1D (int (length (dphiR_binning cfg)) - 1)
               (map (narrow \<circ> Finite) (dphiR_binning cfg))),
          (folderName cfg, ''dPhiR_denominator'',
             Variable1D (int (length (dphiR_binning cfg)) - 1)
               (map (narrow \<circ> Finite) (dphiR_binning cfg))),
          (folderName cfg, ''MRVsRsq_numerator'',
             Variable2D (int (length (mr_binning cfg)) - 1)
               (map (narrow \<circ> Finite) (mr_binning cfg))
               (int (length (rsq_binning cfg)) - 1)
               (map (narrow \<circ> Finite) (rsq_binning cfg))),
          (folderName cfg, ''MRVsRsq_denominator'',
             Variable2D (int (length (mr_binning cfg)) - 1)
               (map (narrow \<circ> Finite) (mr_binning cfg))
               (int (length (rsq_binning cfg)) - 1)
               (map (narrow \<circ> Finite) (rsq_binning cfg)))]"
proof -
  let ?new = "[SetCurrentFolder (folderName cfg)]
         @ pair_calls ''MR'' ''PF MR''
             (Variable1D (int (length (mr_binning cfg)) - 1)
               (map (narrow \<circ> Finite) (mr_binning cfg)))
             ''PF M_{R} [GeV]'' ''events / [GeV]''
         @ pair_calls ''Rsq'' ''PF Rsq''
             (Variable1D (int (length (rsq_binning cfg)) - 1)
               (map (narrow \<circ> Finite) (rsq_binning cfg)))
             ''PF R^{2}'' ''events''
         @ pair_calls ''dPhiR'' ''dPhiR''
             (Variable1D (int (length (dphiR_binning cfg)) - 1)
               (map (narrow \<circ> Finite) (dphiR_binning cfg)))
             ''dPhi_{R}'' ''events''
         @ pair_calls ''MRVsRsq'' ''PF MR vs PF Rsq''
             (Variable2D (int (length (mr_binning cfg)) - 1)
               (map (narrow \<circ> Finite) (mr_binning cfg))
                (int (length (rsq_binning cfg)) - 1)
               (map (narrow \<circ> Finite) (rsq_binning cfg)))
             ''M_{R} [GeV]'' ''R^{2}''
         @ (if flag_on (num_genTriggerEventFlag cfg) then [InitRun Numerator] else [])
         @ (if flag_on (den_genTriggerEventFlag cfg) then [InitRun Denominator] else [])"
  define st' where "st' =
     \<lparr>mes = (mes st)
        (MR_ME := \<lparr>numerator = Some ''MR_numerator'', denominator = Some ''MR_denominator''\<rparr>,
         Rsq_ME := \<lparr>numerator = Some ''Rsq_numerator'', denominator = Some ''Rsq_denominator''\<rparr>,
         dPhiR_ME := \<lparr>numerator = Some ''dPhiR_numerator'',
                       denominator = Some ''dPhiR_denominator''\<rparr>,
         MRVsRsq_ME := \<lparr>numerator = Some ''MRVsRsq_numerator'',
                         denominator = Some ''MRVsRsq_denominator''\<rparr>),
       calls = calls st @ ?new\<rparr>"
  have r: "bookHistograms cfg st = Inr st'"
    unfolding st'_def by (rule bookHistograms_result)
  have n: "numerator (mes st' h) \<noteq> None \<and> denominator (mes st' h) \<noteq> None" for h
    unfolding st'_def by (cases h) simp_all
  have c: "calls st' = calls st @ ?new" unfolding st'_def by simp
  then have "drop (length (calls st)) (calls st') = ?new" by simp
  then have b: "booked cwd (drop (length (calls st)) (calls st')) = booked cwd ?new" by simp
  show ?thesis
    apply (rule exI [of _ st'])
    apply (simp only: b)
    apply (simp only: r c n)
    apply (simp add: pair_calls_def)
    done
qed

text \<open>
  C9, amended, with the default configuration: eight histograms, six one-dimensional and two
  two-dimensional, all under \<^verbatim>\<open>HLT/SUSY/Razor\<close>.
\<close>

theorem bookHistograms_books_four_pairs_witness:
  "length (bookings (default_config accepting accepting)) = 2 * 4
   \<and> length (filter (\<lambda>(folder, name, sh). is_1D sh) (bookings (default_config accepting accepting)))
       = 2 * 3
   \<and> length (filter (\<lambda>(folder, name, sh). is_2D sh) (bookings (default_config accepting accepting)))
       = 2 * 1
   \<and> map fst (bookings (default_config accepting accepting)) = replicate 8 ''HLT/SUSY/Razor''"
  using bookHistograms_books_four_pairs [of "default_config accepting accepting" constructed "[]"]
  by (auto simp: bookings_def constructed_def is_1D_def is_2D_def default_config_def
      numeral_eq_Suc simp del: narrow.simps(1))



end
